theory Spec2Isabelle
  imports Main "HOL-Library.Sublist"
begin

unbundle bit_operations_syntax

section \<open>The RAM encoder of hwcodec (ffmpeg\_ram\_encode.cpp)\<close>

text \<open>
  The session drives an external codec engine (FFmpeg). The engine is not part of the
  program: every engine call is an event of a trace, and what the engine answers is a
  parameter of the model. The \<open>int\<close> arithmetic of the layout computations is that of
  a 32-bit two's complement \<open>int\<close>: every product and sum is reduced to the range of the
  type (\<open>c_int\<close>). Timestamps are taken to lie in the range of \<open>int64_t\<close>. An array of
  the caller or of the engine is a list; the arrays of line sizes, offsets and data
  pointers have \<open>AV_NUM_DATA_POINTERS\<close> entries.
\<close>

subsection \<open>Engine types\<close>

text \<open>
  \<open>enum AVPixelFormat\<close>: the tags the source names, and every other tag of the enum by
  its number.
\<close>

datatype AVPixelFormat =
    AV_PIX_FMT_NONE
  | AV_PIX_FMT_YUV420P
  | AV_PIX_FMT_NV12
  | AV_PIX_FMT_VAAPI
  | AV_PIX_FMT_D3D11
  | AV_PIX_FMT_OTHER int

datatype AVHWDeviceType =
    AV_HWDEVICE_TYPE_NONE
  | AV_HWDEVICE_TYPE_VAAPI
  | AV_HWDEVICE_TYPE_D3D11VA

definition AV_NUM_DATA_POINTERS :: nat where
  "AV_NUM_DATA_POINTERS = 8"

text \<open>\<open>AVERROR(EAGAIN)\<close>, the engine's "not ready", where \<open>EAGAIN\<close> is 11.\<close>

definition AVERROR_EAGAIN :: int where
  "AVERROR_EAGAIN = - 11"

definition AV_PKT_FLAG_KEY :: int where
  "AV_PKT_FLAG_KEY = 1"

text \<open>Division of C: the quotient is truncated towards zero.\<close>

definition c_div :: "int \<Rightarrow> int \<Rightarrow> int" where
  "c_div a b = sgn a * sgn b * (\<bar>a\<bar> div \<bar>b\<bar>)"

text \<open>
  The value of an \<open>int\<close> expression whose exact value is \<open>x\<close>: the 32-bit two's
  complement number congruent to \<open>x\<close>. It is \<open>x\<close> itself from \<open>INT_MIN\<close> to \<open>INT_MAX\<close>.
\<close>

definition INT_MAX :: int where
  "INT_MAX = 2147483647"

definition c_int :: "int \<Rightarrow> int" where
  "c_int x = (x + 2147483648) mod 4294967296 - 2147483648"

record AVHWFramesContext =
  hwfc_format :: AVPixelFormat
  hwfc_sw_format :: AVPixelFormat
  hwfc_width :: int
  hwfc_height :: int
  hwfc_initial_pool_size :: int

text \<open>
  \<open>AVFrame\<close>: \<open>linesize\<close> and \<open>data\<close> are the arrays of \<open>AV_NUM_DATA_POINTERS\<close> entries,
  a data pointer is an address (0 is \<open>NULL\<close>).
\<close>

record AVFrame =
  format :: AVPixelFormat
  width :: int
  height :: int
  linesize :: "int list"
  data :: "int list"
  hw_frames_ctx :: "AVHWFramesContext option"

record AVPacket =
  pkt_data :: int
  pkt_size :: int
  pkt_flags :: int

text \<open>
  \<open>AVCodecContext\<close>, the fields the session writes. \<open>avcodec_alloc_context3\<close> gives a
  context with the engine's defaults in them.
\<close>

record AVCodecContext =
  cc_width :: int
  cc_height :: int
  cc_pix_fmt :: AVPixelFormat
  cc_sw_pix_fmt :: AVPixelFormat
  cc_has_b_frames :: int
  cc_max_b_frames :: int
  cc_gop_size :: int
  cc_bit_rate :: int
  cc_rc_max_rate :: int
  cc_time_base :: "int \<times> int"
  cc_framerate :: "int \<times> int"
  cc_flags :: int
  cc_thread_count :: int
  cc_thread_type :: int
  cc_color_range :: int
  cc_colorspace :: int
  cc_color_primaries :: int
  cc_color_trc :: int
  cc_hw_frames_ctx :: "AVHWFramesContext option"

definition AV_CODEC_FLAG2_LOCAL_HEADER :: int where
  "AV_CODEC_FLAG2_LOCAL_HEADER = 2 ^ 3"

definition AV_CODEC_FLAG_LOW_DELAY :: int where
  "AV_CODEC_FLAG_LOW_DELAY = 2 ^ 19"

definition FF_THREAD_SLICE :: int where
  "FF_THREAD_SLICE = 2"

definition AVCOL_RANGE_MPEG :: int where
  "AVCOL_RANGE_MPEG = 1"

definition AVCOL_SPC_SMPTE170M :: int where
  "AVCOL_SPC_SMPTE170M = 6"

definition AVCOL_PRI_SMPTE170M :: int where
  "AVCOL_PRI_SMPTE170M = 6"

definition AVCOL_TRC_SMPTE170M :: int where
  "AVCOL_TRC_SMPTE170M = 6"

subsection \<open>Events\<close>

text \<open>
  What a caller or the engine can observe of a run: the engine calls the claims speak
  about, the packet callback with its five arguments, and the error log.
  \<open>Call_buffer_unref\<close> is \<open>av_buffer_unref\<close> on the reference to the frame pool,
  \<open>Call_device_ctx_unref\<close> is \<open>av_buffer_unref\<close> on \<open>hw_device_ctx_\<close>.
\<close>

datatype event =
    Log_error string
  | Callback int int int int int
  | Call_hwdevice_ctx_create AVHWDeviceType "int option"
  | Call_hwframe_ctx_alloc
  | Call_hwframe_ctx_init AVHWFramesContext
  | Call_buffer_ref
  | Call_buffer_unref
  | Call_hwframe_get_buffer
  | Call_frame_get_buffer AVPixelFormat int int int
  | Call_frame_make_writable
  | Call_hwframe_transfer_data
  | Call_send_frame "AVFrame option"
  | Call_receive_packet
  | Call_packet_unref
  | Call_set_lantency_free string
  | Call_set_quality string int
  | Call_set_rate_control string int
  | Call_set_gpu string int
  | Call_force_hw string
  | Call_set_others string
  | Call_avcodec_open2 AVCodecContext
  | Call_packet_free AVPacket
  | Call_frame_free AVFrame
  | Call_device_ctx_unref
  | Call_avcodec_free_context AVCodecContext

subsection \<open>calculate\_offset\_length\<close>

text \<open>
  \<open>linesize\<close> is read, \<open>offset\<close> and \<open>length\<close> are the caller's outputs; the result is
  the return code, the two outputs after the call and the log.
\<close>

definition calculate_offset_length ::
  "AVPixelFormat \<Rightarrow> int \<Rightarrow> int list \<Rightarrow> int list \<Rightarrow> int \<Rightarrow> int \<times> int list \<times> int \<times> event list" where
  "calculate_offset_length pix_fmt h ls offset len =
     (case pix_fmt of
        AV_PIX_FMT_YUV420P \<Rightarrow>
          (let offset0 = c_int (ls ! 0 * h);
               offset1 = c_int (offset0 + c_div (c_int (ls ! 1 * h)) 2)
           in (0, offset[0 := offset0, 1 := offset1],
               c_int (offset1 + c_div (c_int (ls ! 2 * h)) 2), []))
      | AV_PIX_FMT_NV12 \<Rightarrow>
          (let offset0 = c_int (ls ! 0 * h)
           in (0, offset[0 := offset0], c_int (offset0 + c_div (c_int (ls ! 1 * h)) 2), []))
      | _ \<Rightarrow> (- 1, offset, len, [Log_error ''unsupported pixfmt'']))"

subsection \<open>ffmpeg\_ram\_get\_linesize\_offset\_length\<close>

text \<open>
  The answers of the engine to the two calls of the function: whether \<open>av_frame_alloc\<close>
  gives a frame, and the return code of \<open>av_frame_get_buffer\<close> with the line sizes it
  leaves in the frame.
\<close>

record layout_engine =
  le_frame_alloc :: bool
  le_get_buffer :: "int \<times> int list"

text \<open>The test \<open>if (p)\<close> of a pointer.\<close>

definition non_null :: "'a option \<Rightarrow> bool" where
  "non_null p = (p \<noteq> None)"

text \<open>\<open>for (i = 0; i < n; i++) dst[i] = src[i];\<close>\<close>

fun copy_all :: "nat list \<Rightarrow> int list \<Rightarrow> int list \<Rightarrow> int list" where
  "copy_all [] src dst = dst"
| "copy_all (i # is) src dst = copy_all is src (dst[i := src ! i])"

text \<open>The loop that copies the offsets stops at the first offset that is 0.\<close>

fun copy_offsets :: "nat list \<Rightarrow> int list \<Rightarrow> int list \<Rightarrow> int list" where
  "copy_offsets [] ioffset offset = offset"
| "copy_offsets (i # is) ioffset offset =
     (if ioffset ! i = 0 then offset
      else copy_offsets is ioffset (offset[i := ioffset ! i]))"

text \<open>
  The three outputs are pointers; \<open>None\<close> is \<open>NULL\<close>. The result is the return code, the
  outputs after the call and the log.
\<close>

definition ffmpeg_ram_get_linesize_offset_length ::
  "layout_engine \<Rightarrow> AVPixelFormat \<Rightarrow> int \<Rightarrow> int \<Rightarrow> int \<Rightarrow>
   int list option \<Rightarrow> int list option \<Rightarrow> int option \<Rightarrow>
   int \<times> int list option \<times> int list option \<times> int option \<times> event list" where
  "ffmpeg_ram_get_linesize_offset_length eng pix_fmt w h align linesize_out offset_out length_out =
     (let ioffset = replicate AV_NUM_DATA_POINTERS 0;
          ilength = 0
      in if \<not> le_frame_alloc eng
         then (- 1, linesize_out, offset_out, length_out, [Log_error ''Alloc frame failed''])
         else
           let (ret, frame_linesize) = le_get_buffer eng;
               tr = [Call_frame_get_buffer pix_fmt w h align]
           in if ret < 0
              then (ret, linesize_out, offset_out, length_out, tr @ [Log_error ''av_frame_get_buffer''])
              else
                let linesize_out' =
                      map_option (copy_all [0..<AV_NUM_DATA_POINTERS] frame_linesize) linesize_out;
                    (ret', ioffset', ilength', lg) =
                      (if non_null offset_out \<or> non_null length_out
                       then calculate_offset_length pix_fmt h frame_linesize ioffset ilength
                       else (ret, ioffset, ilength, []))
                in if ret' < 0
                   then (ret', linesize_out', offset_out, length_out, tr @ lg)
                   else (0, linesize_out',
                         map_option (copy_offsets [0..<AV_NUM_DATA_POINTERS] ioffset') offset_out,
                         map_option (\<lambda>_. ilength') length_out,
                         tr @ lg))"

subsection \<open>The session\<close>

text \<open>
  \<open>class FFmpegRamEncoder\<close>. The member \<open>x_\<close> of the class is the field \<open>x_m\<close>; a pointer
  member is \<open>None\<close> when it is \<open>NULL\<close>. The device context is opaque to the session, so
  \<open>hw_device_ctx_\<close> only says whether the session holds one. The callback is a function
  pointer of the caller: its invocations are \<open>Callback\<close> events.
\<close>

record FFmpegRamEncoder =
  c_m :: "AVCodecContext option"
  frame_m :: "AVFrame option"
  pkt_m :: "AVPacket option"
  name_m :: string
  first_ms_m :: int
  width_m :: int
  height_m :: int
  pixfmt_m :: AVPixelFormat
  align_m :: int
  bit_rate_m :: int
  time_base_num_m :: int
  time_base_den_m :: int
  gop_m :: int
  quality_m :: int
  rc_m :: int
  thread_count_m :: int
  gpu_m :: int
  offset_m :: "int list"
  hw_device_type_m :: AVHWDeviceType
  hw_pixfmt_m :: AVPixelFormat
  hw_device_ctx_m :: bool
  hw_frame_m :: "AVFrame option"

text \<open>
  \<open>std::string::find\<close>: the first position at which the pattern starts, \<open>None\<close> for
  \<open>npos\<close>.
\<close>

fun find_str :: "string \<Rightarrow> string \<Rightarrow> nat option" where
  "find_str [] pat = (if pat = [] then Some 0 else None)"
| "find_str (c # cs) pat =
     (if prefix pat (c # cs) then Some 0 else map_option Suc (find_str cs pat))"

text \<open>\<open>s.find(pat) != std::string::npos\<close>\<close>

definition contains :: "string \<Rightarrow> string \<Rightarrow> bool" where
  "contains s pat = (find_str s pat \<noteq> None)"

text \<open>
  The constructor. \<open>win32\<close> says whether the program is built with \<open>_WIN32\<close> defined.
\<close>

definition FFmpegRamEncoder_new ::
  "bool \<Rightarrow> string \<Rightarrow> int \<Rightarrow> int \<Rightarrow> AVPixelFormat \<Rightarrow> int \<Rightarrow> int \<Rightarrow> int \<Rightarrow> int \<Rightarrow> int \<Rightarrow>
   int \<Rightarrow> int \<Rightarrow> int \<Rightarrow> int \<Rightarrow> FFmpegRamEncoder" where
  "FFmpegRamEncoder_new win32 name w h pixfmt align bit_rate time_base_num time_base_den
       gop quality rc thread_count gpu =
     (let s = \<lparr> c_m = None, frame_m = None, pkt_m = None, name_m = name, first_ms_m = 0,
                width_m = w, height_m = h, pixfmt_m = pixfmt, align_m = align,
                bit_rate_m = bit_rate, time_base_num_m = time_base_num,
                time_base_den_m = time_base_den, gop_m = gop, quality_m = quality,
                rc_m = rc, thread_count_m = thread_count, gpu_m = gpu,
                offset_m = replicate AV_NUM_DATA_POINTERS 0,
                hw_device_type_m = AV_HWDEVICE_TYPE_NONE, hw_pixfmt_m = AV_PIX_FMT_NONE,
                hw_device_ctx_m = False, hw_frame_m = None \<rparr>
      in if contains name ''vaapi''
         then s\<lparr>hw_device_type_m := AV_HWDEVICE_TYPE_VAAPI, hw_pixfmt_m := AV_PIX_FMT_VAAPI\<rparr>
         else if contains name ''nvenc''
         then (if win32
               then s\<lparr>hw_device_type_m := AV_HWDEVICE_TYPE_D3D11VA, hw_pixfmt_m := AV_PIX_FMT_D3D11\<rparr>
               else s)
         else s)"

text \<open>
  A call that reads through a pointer that is \<open>NULL\<close> or dangling has no defined
  behaviour; a call that returns gives its results.
\<close>

datatype 'a result = Undefined_behaviour | Returns 'a

subsection \<open>fill\_frame\<close>

text \<open>
  The return code, the frame with its plane pointers set into the caller's buffer at
  \<open>dat\<close>, and the log.
\<close>

definition fill_frame :: "AVFrame \<Rightarrow> int \<Rightarrow> int \<Rightarrow> int list \<Rightarrow> int \<times> AVFrame \<times> event list" where
  "fill_frame frame dat data_length offset =
     (case format frame of
        AV_PIX_FMT_NV12 \<Rightarrow>
          if data_length <
               c_int (height frame * c_int (linesize frame ! 0 + c_div (linesize frame ! 1) 2))
          then (- 1, frame, [Log_error ''fill_frame: NV12 data length error''])
          else (0, frame\<lparr>data := (data frame)[0 := dat, 1 := dat + offset ! 0]\<rparr>, [])
      | AV_PIX_FMT_YUV420P \<Rightarrow>
          if data_length <
               c_int (height frame *
                      c_int (c_int (linesize frame ! 0 + c_div (linesize frame ! 1) 2)
                             + c_div (linesize frame ! 2) 2))
          then (- 1, frame, [Log_error ''fill_frame: 420P data length error''])
          else (0, frame\<lparr>data := (data frame)[0 := dat, 1 := dat + offset ! 0,
                                               2 := dat + offset ! 1]\<rparr>, [])
      | _ \<Rightarrow> (- 1, frame, [Log_error ''fill_frame: unsupported format'']))"

subsection \<open>do\_encode\<close>

text \<open>
  The answers of the engine during one call of \<open>encode\<close>: the return codes of
  \<open>av_frame_make_writable\<close>, \<open>av_hwframe_transfer_data\<close> and \<open>avcodec_send_frame\<close>, and
  the answers of the successive calls of \<open>avcodec_receive_packet\<close>, each a return code
  and the packet it leaves in \<open>pkt_\<close>. An engine holds finitely many finished packets:
  once the answers are spent it answers \<open>AVERROR(EAGAIN)\<close>.
\<close>

record encode_engine =
  ee_make_writable :: int
  ee_transfer_data :: int
  ee_send_frame :: int
  ee_receive_packet :: "(int \<times> AVPacket) list"

text \<open>
  The \<open>while (ret >= 0)\<close> loop, from the answers still to come, \<open>first_ms_\<close> and
  \<open>encoded\<close>; it gives \<open>first_ms_\<close> and \<open>encoded\<close> at \<open>_exit\<close> and the events of the loop.
\<close>

fun receive_loop ::
  "(int \<times> AVPacket) list \<Rightarrow> int \<Rightarrow> int \<Rightarrow> int \<Rightarrow> bool \<Rightarrow> int \<times> bool \<times> event list" where
  "receive_loop [] obj ms first_ms encoded = (first_ms, encoded, [Call_receive_packet])"
| "receive_loop ((ret, pkt) # answers) obj ms first_ms encoded =
     (if ret < 0
      then (first_ms, encoded,
            Call_receive_packet #
              (if ret \<noteq> AVERROR_EAGAIN then [Log_error ''avcodec_receive_packet failed''] else []))
      else
        let first_ms' = (if first_ms = 0 then ms else first_ms);
            (first_ms'', encoded', tr) = receive_loop answers obj ms first_ms' True
        in (first_ms'', encoded',
            Call_receive_packet #
            Callback (pkt_data pkt) (pkt_size pkt) (ms - first_ms')
                     (pkt_flags pkt AND AV_PKT_FLAG_KEY) obj # tr))"

text \<open>The return code, the session with \<open>first_ms_\<close> as the loop leaves it, and the events.\<close>

definition do_encode ::
  "FFmpegRamEncoder \<Rightarrow> encode_engine \<Rightarrow> AVFrame option \<Rightarrow> int \<Rightarrow> int \<Rightarrow>
   int \<times> FFmpegRamEncoder \<times> event list" where
  "do_encode s eng frame obj ms =
     (if ee_send_frame eng < 0
      then (ee_send_frame eng, s, [Call_send_frame frame, Log_error ''avcodec_send_frame failed''])
      else
        let (first_ms', encoded, tr) =
              receive_loop (ee_receive_packet eng) obj ms (first_ms_m s) False
        in (if encoded then 0 else - 1, s\<lparr>first_ms_m := first_ms'\<rparr>,
            Call_send_frame frame # tr @ [Call_packet_unref]))"

subsection \<open>encode\<close>

text \<open>
  \<open>dat\<close> is the address of the caller's buffer, \<open>len\<close> its length, \<open>obj\<close> the caller's
  context and \<open>ms\<close> the timestamp. The call reads \<open>frame_\<close>: it has no defined behaviour
  on a session without a working frame; otherwise it gives the return code, the session
  after the call and the events.
\<close>

definition encode ::
  "FFmpegRamEncoder \<Rightarrow> encode_engine \<Rightarrow> int \<Rightarrow> int \<Rightarrow> int \<Rightarrow> int \<Rightarrow>
   (int \<times> FFmpegRamEncoder \<times> event list) result" where
  "encode s eng dat len obj ms =
     (case frame_m s of
        None \<Rightarrow> Undefined_behaviour
      | Some frame \<Rightarrow>
          if ee_make_writable eng \<noteq> 0
          then Returns (ee_make_writable eng, s,
                        [Call_frame_make_writable, Log_error ''av_frame_make_writable failed''])
          else
            let (ret, frame', lg) = fill_frame frame dat len (offset_m s)
            in if ret \<noteq> 0
               then Returns (ret, s\<lparr>frame_m := Some frame'\<rparr>, Call_frame_make_writable # lg)
               else
                 let s' = s\<lparr>frame_m := Some frame'\<rparr>
                 in if hw_device_type_m s' \<noteq> AV_HWDEVICE_TYPE_NONE
                    then
                      if ee_transfer_data eng < 0
                      then Returns (ee_transfer_data eng, s',
                                    Call_frame_make_writable # lg @
                                    [Call_hwframe_transfer_data,
                                     Log_error ''av_hwframe_transfer_data failed''])
                      else
                        let (r, s'', tr) = do_encode s' eng (hw_frame_m s') obj ms
                        in Returns (r, s'',
                                    Call_frame_make_writable # lg @ Call_hwframe_transfer_data # tr)
                    else
                      let (r, s'', tr) = do_encode s' eng (frame_m s') obj ms
                      in Returns (r, s'', Call_frame_make_writable # lg @ tr))"

subsection \<open>set\_bitrate and free\_encoder\<close>

text \<open>\<open>set_bitrate\<close> writes through \<open>c_\<close> for the two families it supports.\<close>

definition set_bitrate :: "FFmpegRamEncoder \<Rightarrow> int \<Rightarrow> (int \<times> FFmpegRamEncoder \<times> event list) result" where
  "set_bitrate s bitrate =
     (if contains (name_m s) ''nvenc'' \<or> contains (name_m s) ''amf''
      then (case c_m s of
              None \<Rightarrow> Undefined_behaviour
            | Some c \<Rightarrow> Returns (0, s\<lparr>c_m := Some (c\<lparr>cc_bit_rate := bitrate\<rparr>)\<rparr>, []))
      else Returns (- 1, s, [Log_error ''ffmpeg_ram_set_bitrate does not implement bitrate change'']))"

text \<open>
  \<open>free_encoder\<close> hands each resource the session holds back to the engine, in the order
  packet, working frame, hardware frame, device context, codec context, and clears the
  pointer: the session after the call and the calls made.
\<close>

definition free_encoder :: "FFmpegRamEncoder \<Rightarrow> FFmpegRamEncoder \<times> event list" where
  "free_encoder s =
     (s\<lparr>pkt_m := None, frame_m := None, hw_frame_m := None, hw_device_ctx_m := False, c_m := None\<rparr>,
      (case pkt_m s of Some pkt \<Rightarrow> [Call_packet_free pkt] | None \<Rightarrow> [])
      @ (case frame_m s of Some frame \<Rightarrow> [Call_frame_free frame] | None \<Rightarrow> [])
      @ (case hw_frame_m s of Some hw_frame \<Rightarrow> [Call_frame_free hw_frame] | None \<Rightarrow> [])
      @ (if hw_device_ctx_m s then [Call_device_ctx_unref] else [])
      @ (case c_m s of Some c \<Rightarrow> [Call_avcodec_free_context c] | None \<Rightarrow> []))"

subsection \<open>init\<close>

text \<open>
  The answers of the engine, and of the helpers of the repository that are outside this
  file, during one call of \<open>init\<close>, in the order of the calls:
  whether \<open>avcodec_find_encoder_by_name\<close> finds the codec; the context of
  \<open>avcodec_alloc_context3\<close>; the adapter index of \<open>Adapters::GetFirstAdapterIndex\<close>; the
  return code of \<open>av_hwdevice_ctx_create\<close>; whether \<open>av_hwframe_ctx_alloc\<close> gives a
  pool; the return code of \<open>av_hwframe_ctx_init\<close>; whether \<open>av_buffer_ref\<close> gives a
  reference; whether \<open>av_frame_alloc\<close> gives the hardware frame; the return code of
  \<open>av_hwframe_get_buffer\<close> and the frame it leaves; whether \<open>av_frame_alloc\<close> gives the
  working frame; the return code of \<open>av_frame_get_buffer\<close> and the line sizes it leaves;
  the packet of \<open>av_packet_alloc\<close>; the result of \<open>util::set_lantency_free\<close>; the return
  code of \<open>avcodec_open2\<close>; the answers to \<open>ffmpeg_ram_get_linesize_offset_length\<close>.
\<close>

record init_engine =
  ie_find_encoder :: bool
  ie_alloc_context :: "AVCodecContext option"
  ie_adapter_index :: int
  ie_hwdevice_ctx_create :: int
  ie_hwframe_ctx_alloc :: bool
  ie_hwframe_ctx_init :: int
  ie_buffer_ref :: bool
  ie_hw_frame_alloc :: bool
  ie_hwframe_get_buffer :: "int \<times> AVFrame"
  ie_frame_alloc :: "AVFrame option"
  ie_frame_get_buffer :: "int \<times> int list"
  ie_packet_alloc :: "AVPacket option"
  ie_set_lantency_free :: bool
  ie_open2 :: int
  ie_layout :: layout_engine

text \<open>
  \<open>set_hwframe_ctx\<close>, on the codec context \<open>c_\<close>: the return code, the context after the
  call and the events.
\<close>

definition set_hwframe_ctx ::
  "FFmpegRamEncoder \<Rightarrow> init_engine \<Rightarrow> AVCodecContext \<Rightarrow> int \<times> AVCodecContext \<times> event list" where
  "set_hwframe_ctx s eng c =
     (if \<not> ie_hwframe_ctx_alloc eng
      then (- 1, c, [Call_hwframe_ctx_alloc, Log_error ''av_hwframe_ctx_alloc failed''])
      else
        let frames_ctx = \<lparr> hwfc_format = hw_pixfmt_m s, hwfc_sw_format = pixfmt_m s,
                             hwfc_width = width_m s, hwfc_height = height_m s,
                             hwfc_initial_pool_size = 1 \<rparr>;
            err = ie_hwframe_ctx_init eng
        in if err < 0
           then (err, c, [Call_hwframe_ctx_alloc, Call_hwframe_ctx_init frames_ctx, Call_buffer_unref])
           else if ie_buffer_ref eng
           then (err, c\<lparr>cc_hw_frames_ctx := Some frames_ctx\<rparr>,
                 [Call_hwframe_ctx_alloc, Call_hwframe_ctx_init frames_ctx, Call_buffer_ref,
                  Call_buffer_unref])
           else (- 1, c\<lparr>cc_hw_frames_ctx := None\<rparr>,
                 [Call_hwframe_ctx_alloc, Call_hwframe_ctx_init frames_ctx, Call_buffer_ref,
                  Log_error ''av_buffer_ref failed'', Call_buffer_unref]))"

text \<open>
  The block of \<open>init\<close> under \<open>if (hw_device_type_ != AV_HWDEVICE_TYPE_NONE)\<close>, on the
  codec context \<open>c_\<close>: whether \<open>init\<close> goes on, the session, the codec context and the
  events. The device string is the decimal of the adapter index, \<open>None\<close> for \<open>NULL\<close>.
\<close>

definition init_hw ::
  "bool \<Rightarrow> FFmpegRamEncoder \<Rightarrow> init_engine \<Rightarrow> AVCodecContext \<Rightarrow>
   bool \<times> FFmpegRamEncoder \<times> AVCodecContext \<times> event list" where
  "init_hw win32 s eng c =
     (let device =
            (if win32 \<and> contains (name_m s) ''nvenc'' \<and> ie_adapter_index eng \<ge> 0
             then Some (ie_adapter_index eng) else None);
          tr1 = [Call_hwdevice_ctx_create (hw_device_type_m s) device]
      in if ie_hwdevice_ctx_create eng < 0
         then (False, s, c, tr1 @ [Log_error ''av_hwdevice_ctx_create failed''])
         else
           let s1 = s\<lparr>hw_device_ctx_m := True\<rparr>;
               (err, c', tr2) = set_hwframe_ctx s1 eng c;
               s2 = s1\<lparr>c_m := Some c'\<rparr>
           in if err \<noteq> 0
              then (False, s2, c', tr1 @ tr2 @ [Log_error ''set_hwframe_ctx failed''])
              else if \<not> ie_hw_frame_alloc eng
              then (False, s2\<lparr>hw_frame_m := None\<rparr>, c',
                    tr1 @ tr2 @ [Log_error ''av_frame_alloc failed''])
              else
                let (ret, hw_frame) = ie_hwframe_get_buffer eng;
                    s3 = s2\<lparr>hw_frame_m := Some hw_frame\<rparr>;
                    tr3 = tr1 @ tr2 @ [Call_hwframe_get_buffer]
                in if ret < 0
                   then (False, s3, c', tr3 @ [Log_error ''av_hwframe_get_buffer failed''])
                   else if hw_frames_ctx hw_frame = None
                   then (False, s3, c', tr3 @ [Log_error ''hw_frame_->hw_frames_ctx is NULL''])
                   else (True, s3, c', tr3))"

text \<open>The parameters \<open>init\<close> writes into the codec context before it opens the engine.\<close>

definition configure :: "FFmpegRamEncoder \<Rightarrow> AVCodecContext \<Rightarrow> AVCodecContext" where
  "configure s c =
     (let c1 = c\<lparr> cc_width := width_m s, cc_height := height_m s,
                  cc_pix_fmt := (if hw_pixfmt_m s \<noteq> AV_PIX_FMT_NONE then hw_pixfmt_m s
                                 else pixfmt_m s),
                  cc_sw_pix_fmt := pixfmt_m s,
                  cc_has_b_frames := 0, cc_max_b_frames := 0, cc_gop_size := gop_m s \<rparr>;
          c2 = (if bit_rate_m s \<ge> 1000
                then (let c' = c1\<lparr>cc_bit_rate := bit_rate_m s\<rparr>
                      in if contains (name_m s) ''qsv''
                         then c'\<lparr>cc_rc_max_rate := bit_rate_m s\<rparr> else c')
                else c1);
          c3 = c2\<lparr> cc_time_base := (time_base_num_m s, time_base_den_m s) \<rparr>;
          c4 = c3\<lparr> cc_framerate := (snd (cc_time_base c3), fst (cc_time_base c3)) \<rparr>;
          c5 = c4\<lparr> cc_flags := cc_flags c4 OR AV_CODEC_FLAG2_LOCAL_HEADER \<rparr>;
          c6 = c5\<lparr> cc_flags := cc_flags c5 OR AV_CODEC_FLAG_LOW_DELAY \<rparr>
      in c6\<lparr> cc_thread_count := thread_count_m s, cc_thread_type := FF_THREAD_SLICE,
              cc_color_range := AVCOL_RANGE_MPEG, cc_colorspace := AVCOL_SPC_SMPTE170M,
              cc_color_primaries := AVCOL_PRI_SMPTE170M, cc_color_trc := AVCOL_TRC_SMPTE170M \<rparr>)"

text \<open>
  \<open>init\<close> from the working frame on (after the hardware block), on the codec context
  \<open>c_\<close>. The outputs \<open>linesize\<close> and \<open>offset\<close> are arrays of the caller, \<open>length\<close> is a
  pointer. The result says whether \<open>init\<close> succeeds and gives the session, the three
  outputs and the events.
\<close>

definition init_sw ::
  "FFmpegRamEncoder \<Rightarrow> init_engine \<Rightarrow> AVCodecContext \<Rightarrow> int list \<Rightarrow> int list \<Rightarrow> int option \<Rightarrow>
   bool \<times> FFmpegRamEncoder \<times> int list \<times> int list \<times> int option \<times> event list" where
  "init_sw s eng c linesize_out offset_out length_out =
     (case ie_frame_alloc eng of
        None \<Rightarrow> (False, s\<lparr>frame_m := None\<rparr>, linesize_out, offset_out, length_out,
                 [Log_error ''Could not allocate video frame''])
      | Some frame0 \<Rightarrow>
          let frame1 = frame0\<lparr>format := pixfmt_m s, width := width_m s, height := height_m s\<rparr>;
              (ret, ls) = ie_frame_get_buffer eng;
              frame2 = frame1\<lparr>linesize := ls\<rparr>;
              s1 = s\<lparr>frame_m := Some frame2\<rparr>;
              tr1 = [Call_frame_get_buffer (pixfmt_m s) (width_m s) (height_m s) (align_m s)]
          in if ret < 0
             then (False, s1, linesize_out, offset_out, length_out,
                   tr1 @ [Log_error ''av_frame_get_buffer failed''])
             else if ie_packet_alloc eng = None
             then (False, s1\<lparr>pkt_m := None\<rparr>, linesize_out, offset_out, length_out,
                   tr1 @ [Log_error ''Could not allocate video packet''])
             else
               let c' = configure s c;
                   s2 = s1\<lparr>pkt_m := ie_packet_alloc eng, c_m := Some c'\<rparr>;
                   tr2 = tr1 @ [Call_set_lantency_free (name_m s)]
               in if \<not> ie_set_lantency_free eng
                  then (False, s2, linesize_out, offset_out, length_out,
                        tr2 @ [Log_error ''set_lantency_free failed''])
                  else
                    let tr3 = tr2 @ [Call_set_quality (name_m s) (quality_m s),
                                     Call_set_rate_control (name_m s) (rc_m s),
                                     Call_set_gpu (name_m s) (gpu_m s),
                                     Call_force_hw (name_m s),
                                     Call_set_others (name_m s),
                                     Call_avcodec_open2 c']
                    in if ie_open2 eng < 0
                       then (False, s2, linesize_out, offset_out, length_out,
                             tr3 @ [Log_error ''avcodec_open2 failed''])
                       else
                         let s3 = s2\<lparr>first_ms_m := 0\<rparr>;
                             (r, _, offset', length', tr4) =
                               ffmpeg_ram_get_linesize_offset_length (ie_layout eng)
                                 (pixfmt_m s) (width_m s) (height_m s) (align_m s)
                                 None (Some (offset_m s)) length_out;
                             s4 = s3\<lparr>offset_m := (case offset' of Some off \<Rightarrow> off | None \<Rightarrow> offset_m s)\<rparr>
                         in if r \<noteq> 0
                            then (False, s4, linesize_out, offset_out, length', tr3 @ tr4)
                            else (True, s4,
                                  copy_all [0..<AV_NUM_DATA_POINTERS] ls linesize_out,
                                  copy_all [0..<AV_NUM_DATA_POINTERS] (offset_m s4) offset_out,
                                  length', tr3 @ tr4))"

definition init ::
  "bool \<Rightarrow> FFmpegRamEncoder \<Rightarrow> init_engine \<Rightarrow> int list \<Rightarrow> int list \<Rightarrow> int option \<Rightarrow>
   bool \<times> FFmpegRamEncoder \<times> int list \<times> int list \<times> int option \<times> event list" where
  "init win32 s eng linesize_out offset_out length_out =
     (if \<not> ie_find_encoder eng
      then (False, s, linesize_out, offset_out, length_out, [Log_error ''Codec not found''])
      else
        case ie_alloc_context eng of
          None \<Rightarrow> (False, s\<lparr>c_m := None\<rparr>, linesize_out, offset_out, length_out,
                   [Log_error ''Could not allocate video codec context''])
        | Some c \<Rightarrow>
            let s1 = s\<lparr>c_m := Some c\<rparr>
            in if hw_device_type_m s1 \<noteq> AV_HWDEVICE_TYPE_NONE
               then
                 let (ok, s2, c', tr1) = init_hw win32 s1 eng c
                 in if \<not> ok
                    then (False, s2, linesize_out, offset_out, length_out, tr1)
                    else
                      let (ok', s3, ls', off', len', tr2) =
                            init_sw s2 eng c' linesize_out offset_out length_out
                      in (ok', s3, ls', off', len', tr1 @ tr2)
               else init_sw s1 eng c linesize_out offset_out length_out)"

subsection \<open>The entry points\<close>

text \<open>
  The sessions live in the heap: a handle is an address, \<open>None\<close> is the null handle, and
  the heap has a session at the addresses that \<open>new\<close> gave and \<open>delete\<close> has not yet
  taken back.
\<close>

type_synonym heap = "nat \<Rightarrow> FFmpegRamEncoder option"

text \<open>
  \<open>addr\<close> is the address \<open>new\<close> gives, \<open>None\<close> when \<open>new\<close> throws. A session whose \<open>init\<close>
  fails is freed, with the calls of \<open>free_encoder\<close>, and deleted before the function
  returns the null handle.
\<close>

definition ffmpeg_ram_new_encoder ::
  "bool \<Rightarrow> heap \<Rightarrow> nat option \<Rightarrow> init_engine \<Rightarrow> string \<Rightarrow> int \<Rightarrow> int \<Rightarrow> AVPixelFormat \<Rightarrow>
   int \<Rightarrow> int \<Rightarrow> int \<Rightarrow> int \<Rightarrow> int \<Rightarrow> int \<Rightarrow> int \<Rightarrow> int \<Rightarrow> int \<Rightarrow>
   int list \<Rightarrow> int list \<Rightarrow> int option \<Rightarrow>
   nat option \<times> heap \<times> int list \<times> int list \<times> int option \<times> event list" where
  "ffmpeg_ram_new_encoder win32 hp addr eng name w h pixfmt align bit_rate time_base_num
       time_base_den gop quality rc thread_count gpu linesize_out offset_out length_out =
     (case addr of
        None \<Rightarrow> (None, hp, linesize_out, offset_out, length_out,
                 [Log_error ''new FFmpegRamEncoder failed''])
      | Some p \<Rightarrow>
          let s = FFmpegRamEncoder_new win32 name w h pixfmt align bit_rate time_base_num
                    time_base_den gop quality rc thread_count gpu;
              (ok, s', ls', off', len', tr) = init win32 s eng linesize_out offset_out length_out
          in if ok then (Some p, hp(p \<mapsto> s'), ls', off', len', tr)
             else
               let (s'', freed) = free_encoder s'
               in (None, (hp(p \<mapsto> s''))(p := None), ls', off', len', tr @ freed))"

definition ffmpeg_ram_encode ::
  "heap \<Rightarrow> nat option \<Rightarrow> encode_engine \<Rightarrow> int \<Rightarrow> int \<Rightarrow> int \<Rightarrow> int \<Rightarrow>
   (int \<times> heap \<times> event list) result" where
  "ffmpeg_ram_encode hp encoder eng dat len obj ms =
     (case encoder of
        None \<Rightarrow> Undefined_behaviour
      | Some p \<Rightarrow>
          (case hp p of
             None \<Rightarrow> Undefined_behaviour
           | Some s \<Rightarrow>
               (case encode s eng dat len obj ms of
                  Undefined_behaviour \<Rightarrow> Undefined_behaviour
                | Returns (r, s', tr) \<Rightarrow> Returns (r, hp(p \<mapsto> s'), tr))))"

text \<open>
  The heap after the call and the calls made: those of \<open>free_encoder\<close>, after which
  \<open>delete\<close> takes the session out of the heap.
\<close>

definition ffmpeg_ram_free_encoder :: "heap \<Rightarrow> nat option \<Rightarrow> (heap \<times> event list) result" where
  "ffmpeg_ram_free_encoder hp encoder =
     (case encoder of
        None \<Rightarrow> Returns (hp, [])
      | Some p \<Rightarrow>
          (case hp p of
             None \<Rightarrow> Undefined_behaviour
           | Some s \<Rightarrow>
               let (s', freed) = free_encoder s
               in Returns ((hp(p \<mapsto> s'))(p := None), freed)))"

definition ffmpeg_ram_set_bitrate ::
  "heap \<Rightarrow> nat option \<Rightarrow> int \<Rightarrow> (int \<times> heap \<times> event list) result" where
  "ffmpeg_ram_set_bitrate hp encoder bitrate =
     (case encoder of
        None \<Rightarrow> Undefined_behaviour
      | Some p \<Rightarrow>
          (case hp p of
             None \<Rightarrow> Undefined_behaviour
           | Some s \<Rightarrow>
               (case set_bitrate s bitrate of
                  Undefined_behaviour \<Rightarrow> Undefined_behaviour
                | Returns (r, s', tr) \<Rightarrow> Returns (r, hp(p \<mapsto> s'), tr))))"

subsection \<open>A session in use\<close>

text \<open>
  Successive calls of \<open>encode\<close> on one session, each with the answers of the engine, the
  buffer, its length, the caller's context and the timestamp: the return codes, the
  session after the last call and the events of all calls.
\<close>

fun encode_frames ::
  "FFmpegRamEncoder \<Rightarrow> (encode_engine \<times> int \<times> int \<times> int \<times> int) list \<Rightarrow>
   (int list \<times> FFmpegRamEncoder \<times> event list) result" where
  "encode_frames s [] = Returns ([], s, [])"
| "encode_frames s ((eng, dat, len, obj, ms) # calls) =
     (case encode s eng dat len obj ms of
        Undefined_behaviour \<Rightarrow> Undefined_behaviour
      | Returns (r, s', tr) \<Rightarrow>
          (case encode_frames s' calls of
             Undefined_behaviour \<Rightarrow> Undefined_behaviour
           | Returns (rs, s'', tr') \<Rightarrow> Returns (r # rs, s'', tr @ tr')))"

text \<open>The frame pool that \<open>set_hwframe_ctx\<close> describes for a session.\<close>

definition pool_of :: "FFmpegRamEncoder \<Rightarrow> AVHWFramesContext" where
  "pool_of s = \<lparr> hwfc_format = hw_pixfmt_m s, hwfc_sw_format = pixfmt_m s,
                 hwfc_width = width_m s, hwfc_height = height_m s,
                 hwfc_initial_pool_size = 1 \<rparr>"

subsection \<open>Observing a run\<close>

text \<open>The invocations of the callback among the events, and their \<open>pts\<close> arguments.\<close>

fun callbacks :: "event list \<Rightarrow> event list" where
  "callbacks [] = []"
| "callbacks (Callback d n pts key obj # tr) = Callback d n pts key obj # callbacks tr"
| "callbacks (e # tr) = callbacks tr"

fun callback_pts :: "event list \<Rightarrow> int list" where
  "callback_pts [] = []"
| "callback_pts (Callback d n pts key obj # tr) = pts # callback_pts tr"
| "callback_pts (e # tr) = callback_pts tr"

text \<open>The frames handed to \<open>avcodec_send_frame\<close>.\<close>

fun sent_frames :: "event list \<Rightarrow> AVFrame option list" where
  "sent_frames [] = []"
| "sent_frames (Call_send_frame f # tr) = f # sent_frames tr"
| "sent_frames (e # tr) = sent_frames tr"

text \<open>
  The number of packets the drain loop pulls: the answers of \<open>avcodec_receive_packet\<close>
  before the first negative one.
\<close>

fun packets_pulled :: "(int \<times> AVPacket) list \<Rightarrow> nat" where
  "packets_pulled [] = 0"
| "packets_pulled ((ret, pkt) # answers) = (if ret < 0 then 0 else Suc (packets_pulled answers))"

text \<open>
  The answer that ends the drain loop: the first negative answer of
  \<open>avcodec_receive_packet\<close>.
\<close>

fun stopping_answer :: "(int \<times> AVPacket) list \<Rightarrow> int" where
  "stopping_answer [] = AVERROR_EAGAIN"
| "stopping_answer ((ret, pkt) # answers) = (if ret < 0 then ret else stopping_answer answers)"

text \<open>The messages of the error log.\<close>

fun logged :: "event list \<Rightarrow> string list" where
  "logged [] = []"
| "logged (Log_error msg # tr) = msg # logged tr"
| "logged (e # tr) = logged tr"

text \<open>The return code, the session and the events of a call that returns.\<close>

fun ret_of :: "('r \<times> 'a \<times> event list) result \<Rightarrow> 'r option" where
  "ret_of Undefined_behaviour = None"
| "ret_of (Returns (r, s, tr)) = Some r"

fun state_of :: "('r \<times> 'a \<times> event list) result \<Rightarrow> 'a option" where
  "state_of Undefined_behaviour = None"
| "state_of (Returns (r, s, tr)) = Some s"

fun events_of :: "('r \<times> 'a \<times> event list) result \<Rightarrow> event list" where
  "events_of Undefined_behaviour = []"
| "events_of (Returns (r, s, tr)) = tr"

subsection \<open>Example engines and sessions\<close>

text \<open>
  The context \<open>avcodec_alloc_context3\<close> gives, a frame as \<open>av_frame_alloc\<close> gives it and
  a packet as \<open>av_packet_alloc\<close> gives it.
\<close>

definition default_context :: AVCodecContext where
  "default_context =
     \<lparr> cc_width = 0, cc_height = 0, cc_pix_fmt = AV_PIX_FMT_NONE, cc_sw_pix_fmt = AV_PIX_FMT_NONE,
       cc_has_b_frames = 0, cc_max_b_frames = 0, cc_gop_size = 12, cc_bit_rate = 200000,
       cc_rc_max_rate = 0, cc_time_base = (0, 1), cc_framerate = (0, 1), cc_flags = 0,
       cc_thread_count = 1, cc_thread_type = 3, cc_color_range = 0, cc_colorspace = 2,
       cc_color_primaries = 2, cc_color_trc = 2, cc_hw_frames_ctx = None \<rparr>"

definition empty_frame :: AVFrame where
  "empty_frame =
     \<lparr> format = AV_PIX_FMT_NONE, width = 0, height = 0, linesize = [0, 0, 0, 0, 0, 0, 0, 0],
       data = [0, 0, 0, 0, 0, 0, 0, 0], hw_frames_ctx = None \<rparr>"

definition empty_packet :: AVPacket where
  "empty_packet = \<lparr> pkt_data = 0, pkt_size = 0, pkt_flags = 0 \<rparr>"

text \<open>
  An engine that grants every request of \<open>init\<close>, with the hardware frame and the line
  sizes it hands out.
\<close>

definition willing_engine :: "AVFrame \<Rightarrow> int list \<Rightarrow> init_engine" where
  "willing_engine hw_frame ls =
     \<lparr> ie_find_encoder = True, ie_alloc_context = Some default_context, ie_adapter_index = 0,
       ie_hwdevice_ctx_create = 0, ie_hwframe_ctx_alloc = True, ie_hwframe_ctx_init = 0,
       ie_buffer_ref = True, ie_hw_frame_alloc = True, ie_hwframe_get_buffer = (0, hw_frame),
       ie_frame_alloc = Some empty_frame, ie_frame_get_buffer = (0, ls),
       ie_packet_alloc = Some empty_packet, ie_set_lantency_free = True, ie_open2 = 0,
       ie_layout = \<lparr> le_frame_alloc = True, le_get_buffer = (0, ls) \<rparr> \<rparr>"

text \<open>
  The session \<open>ffmpeg_ram_new_encoder\<close> creates for a software codec with NV12 frames of
  64 by 64, alignment 32, bitrate 500000, time base 1/30 and GOP 9999, when the engine
  grants every request with line sizes 64 and 64.
\<close>

definition nv12_session :: "string \<Rightarrow> FFmpegRamEncoder" where
  "nv12_session name =
   \<lparr>c_m = Some
      \<lparr>cc_width = 64, cc_height = 64, cc_pix_fmt = AV_PIX_FMT_NV12,
         cc_sw_pix_fmt = AV_PIX_FMT_NV12, cc_has_b_frames = 0,
         cc_max_b_frames = 0, cc_gop_size = 9999, cc_bit_rate = 500000,
         cc_rc_max_rate = 0, cc_time_base = (1, 30), cc_framerate = (30, 1),
         cc_flags = 524296, cc_thread_count = 1, cc_thread_type = 2,
         cc_color_range = 1, cc_colorspace = 6, cc_color_primaries = 6,
         cc_color_trc = 6, cc_hw_frames_ctx = None\<rparr>,
     frame_m = Some
        \<lparr>format = AV_PIX_FMT_NV12, width = 64, height = 64,
           linesize = [64, 64, 0, 0, 0, 0, 0, 0],
           data = [0, 0, 0, 0, 0, 0, 0, 0], hw_frames_ctx = None\<rparr>,
     pkt_m = Some \<lparr>pkt_data = 0, pkt_size = 0, pkt_flags = 0\<rparr>,
     name_m = name, first_ms_m = 0, width_m = 64, height_m = 64,
     pixfmt_m = AV_PIX_FMT_NV12, align_m = 32, bit_rate_m = 500000,
     time_base_num_m = 1, time_base_den_m = 30, gop_m = 9999, quality_m = 0,
     rc_m = 0, thread_count_m = 1, gpu_m = 0,
     offset_m = [4096, 0, 0, 0, 0, 0, 0, 0],
     hw_device_type_m = AV_HWDEVICE_TYPE_NONE,
     hw_pixfmt_m = AV_PIX_FMT_NONE, hw_device_ctx_m = False,
     hw_frame_m = None\<rparr>"

text \<open>
  The session \<open>ffmpeg_ram_new_encoder\<close> creates for a software codec with YUV420P
  frames of 1366 by 768 and alignment 1, when the engine grants every request with
  line sizes 1366, 683 and 683.
\<close>

definition yuv420p_session :: FFmpegRamEncoder where
  "yuv420p_session =
   \<lparr>c_m = Some
      \<lparr>cc_width = 1366, cc_height = 768, cc_pix_fmt = AV_PIX_FMT_YUV420P,
         cc_sw_pix_fmt = AV_PIX_FMT_YUV420P, cc_has_b_frames = 0,
         cc_max_b_frames = 0, cc_gop_size = 9999, cc_bit_rate = 500000,
         cc_rc_max_rate = 0, cc_time_base = (1, 30), cc_framerate = (30, 1),
         cc_flags = 524296, cc_thread_count = 1, cc_thread_type = 2,
         cc_color_range = 1, cc_colorspace = 6, cc_color_primaries = 6,
         cc_color_trc = 6, cc_hw_frames_ctx = None\<rparr>,
     frame_m = Some
        \<lparr>format = AV_PIX_FMT_YUV420P, width = 1366, height = 768,
           linesize = [1366, 683, 683, 0, 0, 0, 0, 0],
           data = [0, 0, 0, 0, 0, 0, 0, 0], hw_frames_ctx = None\<rparr>,
     pkt_m = Some \<lparr>pkt_data = 0, pkt_size = 0, pkt_flags = 0\<rparr>,
     name_m = ''libx264'', first_ms_m = 0, width_m = 1366, height_m = 768,
     pixfmt_m = AV_PIX_FMT_YUV420P, align_m = 1, bit_rate_m = 500000,
     time_base_num_m = 1, time_base_den_m = 30, gop_m = 9999, quality_m = 0,
     rc_m = 0, thread_count_m = 1, gpu_m = 0,
     offset_m = [1049088, 1311360, 0, 0, 0, 0, 0, 0],
     hw_device_type_m = AV_HWDEVICE_TYPE_NONE,
     hw_pixfmt_m = AV_PIX_FMT_NONE, hw_device_ctx_m = False,
     hw_frame_m = None\<rparr>"

text \<open>
  An engine that takes the frame and has one key packet of 100 bytes ready, an engine
  that takes the frame and fails with \<open>AVERROR(EINVAL)\<close> at the first
  \<open>avcodec_receive_packet\<close>, and an engine that takes the frame and is not ready with a
  packet.
\<close>

definition one_packet_engine :: encode_engine where
  "one_packet_engine =
     \<lparr> ee_make_writable = 0, ee_transfer_data = 0, ee_send_frame = 0,
       ee_receive_packet = [(0, \<lparr> pkt_data = 8192, pkt_size = 100, pkt_flags = 1 \<rparr>)] \<rparr>"

definition failing_engine :: encode_engine where
  "failing_engine =
     \<lparr> ee_make_writable = 0, ee_transfer_data = 0, ee_send_frame = 0,
       ee_receive_packet = [(- 22, empty_packet)] \<rparr>"

definition not_ready_engine :: encode_engine where
  "not_ready_engine =
     \<lparr> ee_make_writable = 0, ee_transfer_data = 0, ee_send_frame = 0,
       ee_receive_packet = [(AVERROR_EAGAIN, empty_packet)] \<rparr>"

text \<open>
  A hardware frame as \<open>av_hwframe_get_buffer\<close> leaves it for a VAAPI pool of NV12
  surfaces of 64 by 64, and the session the constructor gives for the codec
  \<open>h264_vaapi\<close> with such frames.
\<close>

definition vaapi_frame :: AVFrame where
  "vaapi_frame =
     \<lparr> format = AV_PIX_FMT_VAAPI, width = 64, height = 64, linesize = [0, 0, 0, 0, 0, 0, 0, 0],
       data = [0, 0, 0, 0, 0, 0, 0, 0],
       hw_frames_ctx = Some \<lparr> hwfc_format = AV_PIX_FMT_VAAPI, hwfc_sw_format = AV_PIX_FMT_NV12,
                               hwfc_width = 64, hwfc_height = 64, hwfc_initial_pool_size = 1 \<rparr> \<rparr>"

definition vaapi_new :: FFmpegRamEncoder where
  "vaapi_new = FFmpegRamEncoder_new False ''h264_vaapi'' 64 64 AV_PIX_FMT_NV12 32 500000 1 30 9999 0 0 1 0"

section \<open>Properties\<close>

subsection \<open>Evaluating the arrays\<close>

lemma upt_8: "[0..<8] = [0, 1, 2, 3, 4, 5, 6, 7]"
  by (simp add: upt_rec)

lemma replicate_8: "replicate 8 x = [x, x, x, x, x, x, x, x]"
  by (simp add: numeral_eq_Suc)

lemmas arrays = AV_NUM_DATA_POINTERS_def upt_8 replicate_8

subsection \<open>Substrings\<close>

text \<open>\<open>contains\<close> is the substring relation of the library.\<close>

lemma contains_sublist: "contains s pat \<longleftrightarrow> sublist pat s"
  unfolding contains_def
  by (induction s) (auto simp: sublist_Cons_right)

subsection \<open>The drain loop\<close>

lemma receive_loop_neg:
  "ret < 0 \<Longrightarrow> receive_loop ((ret, pkt) # answers) obj ms first encoded =
     (first, encoded,
      Call_receive_packet #
        (if ret \<noteq> AVERROR_EAGAIN then [Log_error ''avcodec_receive_packet failed''] else []))"
  by simp

lemma receive_loop_packet:
  assumes "\<not> ret < 0"
    and "receive_loop answers obj ms (if first = 0 then ms else first) True = (f2, e2, tr2)"
  shows "receive_loop ((ret, pkt) # answers) obj ms first encoded =
     (f2, e2,
      Call_receive_packet #
      Callback (pkt_data pkt) (pkt_size pkt) (ms - (if first = 0 then ms else first))
               (pkt_flags pkt AND AV_PKT_FLAG_KEY) obj # tr2)"
  using assms by (simp add: Let_def)

lemma receive_loop_no_send:
  "receive_loop answers obj ms first encoded = (first', encoded', tr) \<Longrightarrow>
   sent_frames tr = [] \<and> Call_hwframe_transfer_data \<notin> set tr"
proof (induction answers arbitrary: first encoded first' encoded' tr)
  case Nil
  then show ?case by auto
next
  case (Cons a answers)
  obtain ret pkt where a: "a = (ret, pkt)" by (cases a)
  show ?case
  proof (cases "ret < 0")
    case True
    with Cons.prems show ?thesis
      unfolding a receive_loop_neg [OF True] by auto
  next
    case False
    obtain f2 e2 tr2 where
      r: "receive_loop answers obj ms (if first = 0 then ms else first) True = (f2, e2, tr2)"
      by (cases "receive_loop answers obj ms (if first = 0 then ms else first) True")
    from Cons.prems have "tr = Call_receive_packet #
      Callback (pkt_data pkt) (pkt_size pkt) (ms - (if first = 0 then ms else first))
               (pkt_flags pkt AND AV_PKT_FLAG_KEY) obj # tr2"
      unfolding a receive_loop_packet [OF False r] by simp
    with Cons.IH [OF r] show ?thesis by simp
  qed
qed


lemma sent_frames_append: "sent_frames (xs @ ys) = sent_frames xs @ sent_frames ys"
  by (induction xs rule: sent_frames.induct) auto

lemma do_encode_sent:
  "do_encode s eng fr obj ms = (r, s', tr) \<Longrightarrow>
   sent_frames tr = [fr] \<and> Call_hwframe_transfer_data \<notin> set tr \<and> frame_m s' = frame_m s"
  by (auto simp: do_encode_def Let_def sent_frames_append split: if_splits prod.splits
           dest: receive_loop_no_send)

lemma fill_frame_log:
  "fill_frame fr dat len off = (r, fr', lg) \<Longrightarrow> sent_frames lg = [] \<and> Call_hwframe_transfer_data \<notin> set lg"
  by (auto simp: fill_frame_def split: AVPixelFormat.splits if_splits)

lemma encode_software_path:
  assumes "hw_device_type_m s = AV_HWDEVICE_TYPE_NONE"
    and "encode s enc dat len obj ms = Returns (r, s', tr)"
  shows "Call_hwframe_transfer_data \<notin> set tr \<and> set (sent_frames tr) \<subseteq> {frame_m s'}"
  using assms
  by (auto simp: encode_def Let_def sent_frames_append split: option.splits if_splits prod.splits
           dest!: do_encode_sent fill_frame_log)

subsection \<open>Sessions without a hardware back-end\<close>

lemma layout_no_hw_event:
  "ffmpeg_ram_get_linesize_offset_length le fmt w h al lo oo l0 = (r, lo', oo', l0', tr) \<Longrightarrow>
   Call_hwdevice_ctx_create t d \<notin> set tr"
  by (auto simp: ffmpeg_ram_get_linesize_offset_length_def calculate_offset_length_def Let_def
           split: if_splits prod.splits AVPixelFormat.splits)

lemma init_sw_no_hw:
  assumes "init_sw s eng c lo oo l0 = (ok, s', lo', oo', l0', tr)"
  shows "hw_device_ctx_m s' = hw_device_ctx_m s \<and> hw_frame_m s' = hw_frame_m s
         \<and> hw_device_type_m s' = hw_device_type_m s
         \<and> Call_hwdevice_ctx_create t d \<notin> set tr"
  using assms
  by (auto simp: init_sw_def Let_def split: option.splits prod.splits if_splits
           dest: layout_no_hw_event)

lemma init_no_hw:
  assumes "hw_device_type_m s = AV_HWDEVICE_TYPE_NONE"
    and "init win32 s eng lo oo l0 = (ok, s', lo', oo', l0', tr)"
  shows "hw_device_ctx_m s' = hw_device_ctx_m s \<and> hw_frame_m s' = hw_frame_m s
         \<and> hw_device_type_m s' = AV_HWDEVICE_TYPE_NONE
         \<and> Call_hwdevice_ctx_create t d \<notin> set tr"
  using assms
  by (auto simp: init_def Let_def split: option.splits if_splits dest: init_sw_no_hw)

subsection \<open>Selection of the hardware back-end\<close>

lemma sublist_examples: "\<not> sublist ''vaapi'' ''h264_nvenc''" "sublist ''nvenc'' ''h264_nvenc''"  "sublist ''vaapi'' ''h264_vaapi''"
       "\<not> sublist ''vaapi'' ''libx264''"  "\<not> sublist ''nvenc'' ''libx264''"
  by (simp_all add: contains_sublist [symmetric] contains_def)

text \<open>
  C10. The constructor decides the hardware back-end by substring match on the codec
  name alone: a name that contains "vaapi" gets the VAAPI device type and pixel format; a
  name that contains "nvenc" (and not "vaapi") gets D3D11VA and D3D11 when the program is
  built for Windows, and no device type otherwise; every other name gets none. A session
  without a device type goes through \<open>init\<close> without creating a hardware device or
  frame, and \<open>encode\<close> sends its working frame to the engine without a hardware transfer.
\<close>

theorem hw_backend_selection:
  assumes "s = FFmpegRamEncoder_new win32 name w h pixfmt align bit_rate tbn tbd gop quality rc
                 thread_count gpu"
  shows "hw_device_type_m s
           = (if sublist ''vaapi'' name then AV_HWDEVICE_TYPE_VAAPI
              else if sublist ''nvenc'' name \<and> win32 then AV_HWDEVICE_TYPE_D3D11VA
              else AV_HWDEVICE_TYPE_NONE)
       \<and> hw_pixfmt_m s
           = (if sublist ''vaapi'' name then AV_PIX_FMT_VAAPI
              else if sublist ''nvenc'' name \<and> win32 then AV_PIX_FMT_D3D11
              else AV_PIX_FMT_NONE)
       \<and> (hw_device_type_m s = AV_HWDEVICE_TYPE_NONE \<longrightarrow>
            (\<forall>eng lo oo l0 ok s' lo' oo' l0' tr.
               init win32 s eng lo oo l0 = (ok, s', lo', oo', l0', tr) \<longrightarrow>
                 \<not> hw_device_ctx_m s' \<and> hw_frame_m s' = None
                 \<and> (\<forall>t d. Call_hwdevice_ctx_create t d \<notin> set tr)
                 \<and> (\<forall>enc dat len obj ms r s'' tr'.
                       encode s' enc dat len obj ms = Returns (r, s'', tr') \<longrightarrow>
                         Call_hwframe_transfer_data \<notin> set tr'
                         \<and> set (sent_frames tr') \<subseteq> {frame_m s''})))"
proof -
  have sel: "hw_device_type_m s
           = (if sublist ''vaapi'' name then AV_HWDEVICE_TYPE_VAAPI
              else if sublist ''nvenc'' name \<and> win32 then AV_HWDEVICE_TYPE_D3D11VA
              else AV_HWDEVICE_TYPE_NONE)
       \<and> hw_pixfmt_m s
           = (if sublist ''vaapi'' name then AV_PIX_FMT_VAAPI
              else if sublist ''nvenc'' name \<and> win32 then AV_PIX_FMT_D3D11
              else AV_PIX_FMT_NONE)"
    by (simp add: assms FFmpegRamEncoder_new_def Let_def contains_sublist)
  have fresh: "\<not> hw_device_ctx_m s" "hw_frame_m s = None"
    by (simp_all add: assms FFmpegRamEncoder_new_def Let_def)
  have path: "\<not> hw_device_ctx_m s' \<and> hw_frame_m s' = None
              \<and> (\<forall>t d. Call_hwdevice_ctx_create t d \<notin> set tr)
              \<and> (\<forall>enc dat len obj ms r s'' tr'.
                     encode s' enc dat len obj ms = Returns (r, s'', tr') \<longrightarrow>
                       Call_hwframe_transfer_data \<notin> set tr'
                       \<and> set (sent_frames tr') \<subseteq> {frame_m s''})"
    if none: "hw_device_type_m s = AV_HWDEVICE_TYPE_NONE"
      and i: "init win32 s eng lo oo l0 = (ok, s', lo', oo', l0', tr)"
    for eng lo oo l0 ok s' lo' oo' l0' tr
  proof -
    have a: "hw_device_ctx_m s' = hw_device_ctx_m s \<and> hw_frame_m s' = hw_frame_m s
         \<and> hw_device_type_m s' = AV_HWDEVICE_TYPE_NONE
         \<and> Call_hwdevice_ctx_create t d \<notin> set tr" for t d
      using init_no_hw [OF none i] .
    have b: "hw_device_type_m s' = AV_HWDEVICE_TYPE_NONE" using a by simp
    have c: "Call_hwframe_transfer_data \<notin> set tr' \<and> set (sent_frames tr') \<subseteq> {frame_m s''}"
      if "encode s' enc dat len obj ms = Returns (r, s'', tr')" for enc dat len obj ms r s'' tr'
      using encode_software_path [OF b that] .
    show ?thesis
      using a fresh c by simp
  qed
  have p3: "hw_device_type_m s = AV_HWDEVICE_TYPE_NONE \<longrightarrow>
            (\<forall>eng lo oo l0 ok s' lo' oo' l0' tr.
               init win32 s eng lo oo l0 = (ok, s', lo', oo', l0', tr) \<longrightarrow>
                 \<not> hw_device_ctx_m s' \<and> hw_frame_m s' = None
                 \<and> (\<forall>t d. Call_hwdevice_ctx_create t d \<notin> set tr)
                 \<and> (\<forall>enc dat len obj ms r s'' tr'.
                       encode s' enc dat len obj ms = Returns (r, s'', tr') \<longrightarrow>
                         Call_hwframe_transfer_data \<notin> set tr'
                         \<and> set (sent_frames tr') \<subseteq> {frame_m s''}))"
    by (intro impI allI) (rule path)
  show ?thesis
    by (rule conjI [OF conjunct1 [OF sel] conjI [OF conjunct2 [OF sel] p3]])
qed

theorem hw_backend_selection_witness:
  "hw_device_type_m (FFmpegRamEncoder_new False ''h264_nvenc'' 64 64 AV_PIX_FMT_NV12 32 500000 1 30 9999 0 0 1 0)
     = AV_HWDEVICE_TYPE_NONE
   \<and> hw_device_type_m (FFmpegRamEncoder_new True ''h264_nvenc'' 64 64 AV_PIX_FMT_NV12 32 500000 1 30 9999 0 0 1 0)
     = AV_HWDEVICE_TYPE_D3D11VA
   \<and> hw_device_type_m (FFmpegRamEncoder_new False ''h264_vaapi'' 64 64 AV_PIX_FMT_NV12 32 500000 1 30 9999 0 0 1 0)
     = AV_HWDEVICE_TYPE_VAAPI
   \<and> hw_device_type_m (FFmpegRamEncoder_new False ''libx264'' 64 64 AV_PIX_FMT_NV12 32 500000 1 30 9999 0 0 1 0)
     = AV_HWDEVICE_TYPE_NONE"
  using hw_backend_selection [OF refl, of False "''h264_nvenc''" 64 64 AV_PIX_FMT_NV12 32 500000 1 30 9999 0 0 1 0]
        hw_backend_selection [OF refl, of True "''h264_nvenc''" 64 64 AV_PIX_FMT_NV12 32 500000 1 30 9999 0 0 1 0]
        hw_backend_selection [OF refl, of False "''h264_vaapi''" 64 64 AV_PIX_FMT_NV12 32 500000 1 30 9999 0 0 1 0]
        hw_backend_selection [OF refl, of False "''libx264''" 64 64 AV_PIX_FMT_NV12 32 500000 1 30 9999 0 0 1 0]
  by (simp add: sublist_examples)


subsection \<open>The example session is the one the entry point creates\<close>

lemma layout_nv12_64:
  "ffmpeg_ram_get_linesize_offset_length \<lparr> le_frame_alloc = True, le_get_buffer = (0, [64, 64, 0, 0, 0, 0, 0, 0]) \<rparr>
     AV_PIX_FMT_NV12 64 64 32 None (Some [0, 0, 0, 0, 0, 0, 0, 0]) (Some 0)
   = (0, None, Some [4096, 0, 0, 0, 0, 0, 0, 0], Some 6144, [Call_frame_get_buffer AV_PIX_FMT_NV12 64 64 32])"
  by (simp add: ffmpeg_ram_get_linesize_offset_length_def calculate_offset_length_def non_null_def
        arrays c_div_def c_int_def Let_def)

lemma nv12_session_created:
  "fst (ffmpeg_ram_new_encoder False Map.empty (Some 1) (willing_engine empty_frame [64, 64, 0, 0, 0, 0, 0, 0])
     ''libx264'' 64 64 AV_PIX_FMT_NV12 32 500000 1 30 9999 0 0 1 0
     [0, 0, 0, 0, 0, 0, 0, 0] [0, 0, 0, 0, 0, 0, 0, 0] (Some 0)) = Some 1
   \<and> fst (snd (ffmpeg_ram_new_encoder False Map.empty (Some 1) (willing_engine empty_frame [64, 64, 0, 0, 0, 0, 0, 0])
     ''libx264'' 64 64 AV_PIX_FMT_NV12 32 500000 1 30 9999 0 0 1 0
     [0, 0, 0, 0, 0, 0, 0, 0] [0, 0, 0, 0, 0, 0, 0, 0] (Some 0))) = [1 \<mapsto> nv12_session ''libx264'']"
  by (simp add: ffmpeg_ram_new_encoder_def FFmpegRamEncoder_new_def init_def init_sw_def configure_def
        willing_engine_def default_context_def empty_frame_def empty_packet_def nv12_session_def
        contains_def layout_nv12_64 arrays Let_def
        AV_CODEC_FLAG2_LOCAL_HEADER_def AV_CODEC_FLAG_LOW_DELAY_def FF_THREAD_SLICE_def
        AVCOL_RANGE_MPEG_def AVCOL_SPC_SMPTE170M_def AVCOL_PRI_SMPTE170M_def AVCOL_TRC_SMPTE170M_def)


subsection \<open>Changing the bitrate\<close>

lemma sublist_examples2: "\<not> sublist ''nvenc'' ''libx264''" "\<not> sublist ''amf'' ''libx264''"
  "sublist ''nvenc'' ''h264_nvenc''"
  by (simp_all add: contains_sublist [symmetric] contains_def)

text \<open>
  C7. On a live session whose codec name contains neither "nvenc" nor "amf" (the
  families without live bitrate renegotiation), \<open>ffmpeg_ram_set_bitrate\<close> returns the
  negative code \<open>-1\<close> and leaves the heap, hence the session and its codec context, as
  they were, so that every later call sees the same session; for the two families it
  returns 0 and writes the bitrate into the codec context.
\<close>

theorem set_bitrate_by_family:
  assumes "hp p = Some s"
  shows "(\<not> (sublist ''nvenc'' (name_m s) \<or> sublist ''amf'' (name_m s)) \<longrightarrow>
            ffmpeg_ram_set_bitrate hp (Some p) bitrate =
              Returns (- 1, hp, [Log_error ''ffmpeg_ram_set_bitrate does not implement bitrate change'']))
       \<and> (sublist ''nvenc'' (name_m s) \<or> sublist ''amf'' (name_m s) \<longrightarrow>
            (\<forall>c. c_m s = Some c \<longrightarrow>
               ffmpeg_ram_set_bitrate hp (Some p) bitrate =
                 Returns (0, hp(p \<mapsto> s\<lparr>c_m := Some (c\<lparr>cc_bit_rate := bitrate\<rparr>)\<rparr>), [])))"
proof -
  have same: "hp(p \<mapsto> s) = hp"
    using assms by (simp add: fun_upd_idem)
  show ?thesis
    using assms same
    by (simp add: ffmpeg_ram_set_bitrate_def set_bitrate_def contains_sublist)
qed

theorem set_bitrate_by_family_witness:
  "ffmpeg_ram_set_bitrate [1 \<mapsto> nv12_session ''libx264''] (Some 1) 800000 =
     Returns (- 1, [1 \<mapsto> nv12_session ''libx264''],
              [Log_error ''ffmpeg_ram_set_bitrate does not implement bitrate change''])
   \<and> ret_of (ffmpeg_ram_set_bitrate [1 \<mapsto> nv12_session ''h264_nvenc''] (Some 1) 800000) = Some 0"
  using set_bitrate_by_family [of "[1 \<mapsto> nv12_session ''libx264'']" 1 "nv12_session ''libx264''" 800000]
        set_bitrate_by_family [of "[1 \<mapsto> nv12_session ''h264_nvenc'']" 1 "nv12_session ''h264_nvenc''" 800000]
  by (simp add: sublist_examples2 nv12_session_def)

subsection \<open>Destroying a session\<close>

text \<open>
  C9, as amended. \<open>ffmpeg_ram_free_encoder\<close> with the null handle returns, makes no call
  and leaves every heap as it was. With the handle of a live session it hands each
  resource the session holds back to the engine (the packet with \<open>av_packet_free\<close>, the
  working frame and the hardware frame with \<open>av_frame_free\<close>, the device context with
  \<open>av_buffer_unref\<close>, the codec context with \<open>avcodec_free_context\<close>, in this order, and
  no call for a resource the session does not hold) and deletes the session; no other
  session changes. The handle dangles from then on: the program keeps no record of
  destroyed sessions, so a second \<open>ffmpeg_ram_free_encoder\<close>, an \<open>ffmpeg_ram_encode\<close> or
  an \<open>ffmpeg_ram_set_bitrate\<close> on it reads a deleted object and has no defined behaviour.
\<close>

theorem free_encoder_null_and_live:
  assumes "hp p = Some s"
  shows "ffmpeg_ram_free_encoder hp0 None = Returns (hp0, [])
       \<and> ffmpeg_ram_free_encoder hp (Some p)
           = Returns (hp(p := None),
                      (case pkt_m s of Some pkt \<Rightarrow> [Call_packet_free pkt] | None \<Rightarrow> [])
                      @ (case frame_m s of Some frame \<Rightarrow> [Call_frame_free frame] | None \<Rightarrow> [])
                      @ (case hw_frame_m s of Some hw_frame \<Rightarrow> [Call_frame_free hw_frame]
                         | None \<Rightarrow> [])
                      @ (if hw_device_ctx_m s then [Call_device_ctx_unref] else [])
                      @ (case c_m s of Some c \<Rightarrow> [Call_avcodec_free_context c] | None \<Rightarrow> []))
       \<and> ffmpeg_ram_free_encoder (hp(p := None)) (Some p) = Undefined_behaviour
       \<and> (\<forall>eng dat len obj ms.
             ffmpeg_ram_encode (hp(p := None)) (Some p) eng dat len obj ms = Undefined_behaviour)
       \<and> (\<forall>bitrate.
             ffmpeg_ram_set_bitrate (hp(p := None)) (Some p) bitrate = Undefined_behaviour)"
  using assms
  by (simp add: ffmpeg_ram_free_encoder_def free_encoder_def ffmpeg_ram_encode_def
        ffmpeg_ram_set_bitrate_def)

theorem free_encoder_null_and_live_witness:
  "ffmpeg_ram_free_encoder [1 \<mapsto> nv12_session ''libx264''] None
     = Returns ([1 \<mapsto> nv12_session ''libx264''], [])
   \<and> ffmpeg_ram_free_encoder [1 \<mapsto> nv12_session ''libx264''] (Some 1)
     = Returns (Map.empty,
         [Call_packet_free \<lparr>pkt_data = 0, pkt_size = 0, pkt_flags = 0\<rparr>,
          Call_frame_free
            \<lparr>format = AV_PIX_FMT_NV12, width = 64, height = 64,
               linesize = [64, 64, 0, 0, 0, 0, 0, 0],
               data = [0, 0, 0, 0, 0, 0, 0, 0], hw_frames_ctx = None\<rparr>,
          Call_avcodec_free_context
            \<lparr>cc_width = 64, cc_height = 64, cc_pix_fmt = AV_PIX_FMT_NV12,
               cc_sw_pix_fmt = AV_PIX_FMT_NV12, cc_has_b_frames = 0,
               cc_max_b_frames = 0, cc_gop_size = 9999, cc_bit_rate = 500000,
               cc_rc_max_rate = 0, cc_time_base = (1, 30), cc_framerate = (30, 1),
               cc_flags = 524296, cc_thread_count = 1, cc_thread_type = 2,
               cc_color_range = 1, cc_colorspace = 6, cc_color_primaries = 6,
               cc_color_trc = 6, cc_hw_frames_ctx = None\<rparr>])
   \<and> ffmpeg_ram_set_bitrate Map.empty (Some 1) 800000 = Undefined_behaviour"
  using free_encoder_null_and_live
          [of "[1 \<mapsto> nv12_session ''libx264'']" 1 "nv12_session ''libx264''"
              "[1 \<mapsto> nv12_session ''libx264'']"]
  by (simp add: nv12_session_def)

text \<open>
  C9 as stated fails: after the session at address 1 is destroyed, a second call with
  the same handle neither reports a failure nor is a no-op.
\<close>

theorem free_encoder_twice_counterexample:
  "ffmpeg_ram_free_encoder [1 \<mapsto> nv12_session ''libx264''] (Some 1)
     = Returns (Map.empty, snd (free_encoder (nv12_session ''libx264'')))
   \<and> ffmpeg_ram_free_encoder Map.empty (Some 1) = Undefined_behaviour"
  by (simp add: ffmpeg_ram_free_encoder_def split: prod.split)

subsection \<open>The layout of a buffer\<close>

lemma c_div_nonneg: "0 \<le> a \<Longrightarrow> 0 < b \<Longrightarrow> c_div a b = a div b"
  by (cases "a = 0") (simp_all add: c_div_def)

lemma c_int_id: "- 2147483648 \<le> x \<Longrightarrow> x \<le> INT_MAX \<Longrightarrow> c_int x = x"
  by (simp add: c_int_def INT_MAX_def)

lemma c_div_half_le: "0 \<le> a \<Longrightarrow> c_div a 2 \<le> a"
  by (simp add: c_div_nonneg)

lemma c_div_half_pos:
  assumes "0 < x" "2 \<le> h"
  shows "0 < c_div (x * h) 2"
proof -
  have "1 * 2 \<le> x * h"
    using assms by (intro mult_mono) auto
  then have "2 \<le> x * h" by simp
  then show ?thesis
    by (simp add: c_div_nonneg)
qed

lemma list8:
  assumes "length xs = AV_NUM_DATA_POINTERS"
  obtains a b c d e f g h where "xs = [a, b, c, d, e, f, g, h]"
  using assms by (auto simp: AV_NUM_DATA_POINTERS_def numeral_eq_Suc length_Suc_conv)

lemma copy_all_8:
  assumes "length src = AV_NUM_DATA_POINTERS" "length dst = AV_NUM_DATA_POINTERS"
  shows "copy_all [0..<AV_NUM_DATA_POINTERS] src dst = src"
proof -
  obtain a b c d e f g h where s: "src = [a, b, c, d, e, f, g, h]"
    using assms(1) by (rule list8)
  obtain a' b' c' d' e' f' g' h' where d: "dst = [a', b', c', d', e', f', g', h']"
    using assms(2) by (rule list8)
  show ?thesis
    unfolding s d by (simp add: arrays)
qed

lemma copy_offsets_two:
  assumes "length oo = AV_NUM_DATA_POINTERS" "o0 \<noteq> 0" "o1 \<noteq> 0"
  shows "copy_offsets [0..<AV_NUM_DATA_POINTERS]
           ((replicate AV_NUM_DATA_POINTERS 0)[0 := o0, Suc 0 := o1]) oo
         = oo[0 := o0, Suc 0 := o1]"
  using assms by (simp add: arrays)

lemma copy_offsets_one:
  assumes "length oo = AV_NUM_DATA_POINTERS" "o0 \<noteq> 0"
  shows "copy_offsets [0..<AV_NUM_DATA_POINTERS] ((replicate AV_NUM_DATA_POINTERS 0)[0 := o0]) oo
         = oo[0 := o0]"
  using assms by (simp add: arrays)

text \<open>
  C2. For the planar and the semi-planar 4:2:0 format, a height of at least 2 (so every
  positive height that the subsampling factor 2 divides), positive line sizes of the
  planes the format has, byte counts that fit an \<open>int\<close> (the line sizes times the height
  sum to at most \<open>INT_MAX\<close>) and output arrays of \<open>AV_NUM_DATA_POINTERS\<close> entries,
  \<open>ffmpeg_ram_get_linesize_offset_length\<close> returns 0 with the engine's line sizes and:
  for YUV420P, \<open>offset[0] = linesize[0] * height\<close>,
  \<open>offset[1] = offset[0] + linesize[1] * height / 2\<close> and
  \<open>length = offset[1] + linesize[2] * height / 2\<close>, with
  \<open>0 < offset[0] < offset[1] < length\<close>;
  for NV12, \<open>offset[0] = linesize[0] * height\<close> and
  \<open>length = offset[0] + linesize[1] * height / 2\<close>, with \<open>0 < offset[0] < length\<close>.
  The divisions are those of C. The other entries of the offset array are not written.
  Beyond the range of \<open>int\<close> the sums wrap, as \<open>layout_wraps_beyond_int\<close> shows for line
  sizes and a height of 45000.
\<close>

theorem computeLayout_offsets:
  assumes eng: "le_frame_alloc eng" "le_get_buffer eng = (r, ls)" "0 \<le> r"
    and len: "length ls = AV_NUM_DATA_POINTERS" "length lo = AV_NUM_DATA_POINTERS"
             "length oo = AV_NUM_DATA_POINTERS"
    and pos: "2 \<le> h" "0 < ls ! 0" "0 < ls ! 1" "pix_fmt = AV_PIX_FMT_YUV420P \<Longrightarrow> 0 < ls ! 2"
    and rng: "ls ! 0 * h + ls ! 1 * h \<le> INT_MAX"
             "pix_fmt = AV_PIX_FMT_YUV420P \<Longrightarrow> ls ! 0 * h + ls ! 1 * h + ls ! 2 * h \<le> INT_MAX"
  shows "(pix_fmt = AV_PIX_FMT_YUV420P \<longrightarrow>
            ffmpeg_ram_get_linesize_offset_length eng pix_fmt w h align (Some lo) (Some oo) (Some l0)
              = (0, Some ls,
                 Some (oo[0 := ls ! 0 * h, 1 := ls ! 0 * h + c_div (ls ! 1 * h) 2]),
                 Some (ls ! 0 * h + c_div (ls ! 1 * h) 2 + c_div (ls ! 2 * h) 2),
                 [Call_frame_get_buffer pix_fmt w h align])
            \<and> 0 < ls ! 0 * h
            \<and> ls ! 0 * h < ls ! 0 * h + c_div (ls ! 1 * h) 2
            \<and> ls ! 0 * h + c_div (ls ! 1 * h) 2
                < ls ! 0 * h + c_div (ls ! 1 * h) 2 + c_div (ls ! 2 * h) 2)
       \<and> (pix_fmt = AV_PIX_FMT_NV12 \<longrightarrow>
            ffmpeg_ram_get_linesize_offset_length eng pix_fmt w h align (Some lo) (Some oo) (Some l0)
              = (0, Some ls,
                 Some (oo[0 := ls ! 0 * h]),
                 Some (ls ! 0 * h + c_div (ls ! 1 * h) 2),
                 [Call_frame_get_buffer pix_fmt w h align])
            \<and> 0 < ls ! 0 * h
            \<and> ls ! 0 * h < ls ! 0 * h + c_div (ls ! 1 * h) 2)"
proof -
  have h0: "0 < h" using pos(1) by simp
  have p0: "0 < ls ! 0 * h" using pos(2) h0 by simp
  have p1: "0 < ls ! 1 * h" using pos(3) h0 by simp
  have c1: "0 < c_div (ls ! 1 * h) 2" using pos(3) pos(1) by (rule c_div_half_pos)
  have c1le: "c_div (ls ! 1 * h) 2 \<le> ls ! 1 * h" using p1 by (intro c_div_half_le) simp
  have e0: "c_int (ls ! 0 * h) = ls ! 0 * h"
    using p0 p1 rng(1) by (intro c_int_id) linarith+
  have e1: "c_int (ls ! 1 * h) = ls ! 1 * h"
    using p0 p1 rng(1) by (intro c_int_id) linarith+
  have e01: "c_int (ls ! 0 * h + c_div (ls ! 1 * h) 2) = ls ! 0 * h + c_div (ls ! 1 * h) 2"
    using p0 c1 c1le rng(1) by (intro c_int_id) linarith+
  have o0': "ls ! 0 * h \<noteq> 0" using pos(2) h0 by simp
  have planar: ?thesis if p: "pix_fmt = AV_PIX_FMT_YUV420P"
  proof -
    have p2: "0 < ls ! 2 * h" using pos(4) [OF p] h0 by simp
    have c2: "0 < c_div (ls ! 2 * h) 2" using pos(4) [OF p] pos(1) by (rule c_div_half_pos)
    have c2le: "c_div (ls ! 2 * h) 2 \<le> ls ! 2 * h" using p2 by (intro c_div_half_le) simp
    have e2: "c_int (ls ! 2 * h) = ls ! 2 * h"
      using p0 p1 p2 rng(2) [OF p] by (intro c_int_id) linarith+
    have e012: "c_int (ls ! 0 * h + c_div (ls ! 1 * h) 2 + c_div (ls ! 2 * h) 2)
                = ls ! 0 * h + c_div (ls ! 1 * h) 2 + c_div (ls ! 2 * h) 2"
      using p0 c1 c1le c2 c2le rng(2) [OF p] by (intro c_int_id) linarith+
    have o1: "ls ! 0 * h + c_div (ls ! 1 * h) 2 \<noteq> 0" using p0 c1 by simp
    show ?thesis
      using eng o0' o1 c1 c2 pos(2) h0 e0 e1 e2 e01 e012
      by (simp add: p ffmpeg_ram_get_linesize_offset_length_def calculate_offset_length_def
            non_null_def Let_def copy_all_8 [OF len(1) len(2)]
            copy_offsets_two [OF len(3)])
  qed
  have semi: ?thesis if p: "pix_fmt = AV_PIX_FMT_NV12"
  proof -
    show ?thesis
      using eng o0' c1 pos(2) h0 e0 e1 e01
      by (simp add: p ffmpeg_ram_get_linesize_offset_length_def calculate_offset_length_def
            non_null_def Let_def copy_all_8 [OF len(1) len(2)]
            copy_offsets_one [OF len(3)])
  qed
  show ?thesis
    using planar semi by (cases pix_fmt) simp_all
qed

lemma layout_wraps_beyond_int:
  "calculate_offset_length AV_PIX_FMT_NV12 45000 [45000, 45000, 0, 0, 0, 0, 0, 0]
     [0, 0, 0, 0, 0, 0, 0, 0] 0
   = (0, [2025000000, 0, 0, 0, 0, 0, 0, 0], - 1257467296, [])"
  by (simp add: calculate_offset_length_def c_div_def c_int_def)

theorem computeLayout_offsets_witness:
  "ffmpeg_ram_get_linesize_offset_length
     \<lparr> le_frame_alloc = True, le_get_buffer = (0, [64, 32, 32, 0, 0, 0, 0, 0]) \<rparr>
     AV_PIX_FMT_YUV420P 64 64 32
     (Some [0, 0, 0, 0, 0, 0, 0, 0]) (Some [0, 0, 0, 0, 0, 0, 0, 0]) (Some 0)
   = (0, Some [64, 32, 32, 0, 0, 0, 0, 0], Some [4096, 5120, 0, 0, 0, 0, 0, 0], Some 6144,
      [Call_frame_get_buffer AV_PIX_FMT_YUV420P 64 64 32])
   \<and> ffmpeg_ram_get_linesize_offset_length
     \<lparr> le_frame_alloc = True, le_get_buffer = (0, [64, 64, 0, 0, 0, 0, 0, 0]) \<rparr>
     AV_PIX_FMT_NV12 64 64 32
     (Some [0, 0, 0, 0, 0, 0, 0, 0]) (Some [0, 0, 0, 0, 0, 0, 0, 0]) (Some 0)
   = (0, Some [64, 64, 0, 0, 0, 0, 0, 0], Some [4096, 0, 0, 0, 0, 0, 0, 0], Some 6144,
      [Call_frame_get_buffer AV_PIX_FMT_NV12 64 64 32])"
  using computeLayout_offsets
          [of "\<lparr> le_frame_alloc = True, le_get_buffer = (0, [64, 32, 32, 0, 0, 0, 0, 0]) \<rparr>"
              0 "[64, 32, 32, 0, 0, 0, 0, 0]" "[0, 0, 0, 0, 0, 0, 0, 0]" "[0, 0, 0, 0, 0, 0, 0, 0]"
              64 AV_PIX_FMT_YUV420P 64 32 0]
        computeLayout_offsets
          [of "\<lparr> le_frame_alloc = True, le_get_buffer = (0, [64, 64, 0, 0, 0, 0, 0, 0]) \<rparr>"
              0 "[64, 64, 0, 0, 0, 0, 0, 0]" "[0, 0, 0, 0, 0, 0, 0, 0]" "[0, 0, 0, 0, 0, 0, 0, 0]"
              64 AV_PIX_FMT_NV12 64 32 0]
  by (simp add: AV_NUM_DATA_POINTERS_def c_div_def INT_MAX_def)

text \<open>
  C5, as amended. For a format tag other than YUV420P and NV12 the function never
  modifies the caller's offset and length outputs, and it returns a negative code
  whenever the caller asks for offsets or for the length, or the engine refuses the
  frame. The line sizes are not protected: they are untouched only when the engine
  refuses; when the engine grants a buffer for the format they are written before the
  format is looked at, and a caller that asks for the line sizes alone gets 0.
\<close>

theorem computeLayout_unsupported_format:
  assumes fmt: "pix_fmt \<noteq> AV_PIX_FMT_YUV420P" "pix_fmt \<noteq> AV_PIX_FMT_NV12"
    and res: "ffmpeg_ram_get_linesize_offset_length eng pix_fmt w h align lo oo l0
                = (r, lo', oo', l0', tr)"
  shows "oo' = oo \<and> l0' = l0
       \<and> (non_null oo \<or> non_null l0 \<longrightarrow> r < 0)
       \<and> (\<not> le_frame_alloc eng \<or> fst (le_get_buffer eng) < 0 \<longrightarrow> r < 0 \<and> lo' = lo)
       \<and> (le_frame_alloc eng \<and> 0 \<le> fst (le_get_buffer eng) \<longrightarrow>
            lo' = map_option (copy_all [0..<AV_NUM_DATA_POINTERS] (snd (le_get_buffer eng))) lo
            \<and> (\<not> non_null oo \<and> \<not> non_null l0 \<longrightarrow> r = 0))"
proof -
  have calc: "calculate_offset_length pix_fmt h ls io il = (- 1, io, il, [Log_error ''unsupported pixfmt''])"
    for ls io il
    using fmt by (cases pix_fmt) (simp_all add: calculate_offset_length_def)
  obtain g ls where gb: "le_get_buffer eng = (g, ls)" by (cases "le_get_buffer eng")
  show ?thesis
    using res
    by (auto simp: ffmpeg_ram_get_linesize_offset_length_def Let_def calc gb non_null_def
             split: if_splits)
qed

theorem computeLayout_unsupported_format_witness:
  "fst (ffmpeg_ram_get_linesize_offset_length
          \<lparr> le_frame_alloc = True, le_get_buffer = (0, [192, 0, 0, 0, 0, 0, 0, 0]) \<rparr>
          (AV_PIX_FMT_OTHER 2) 64 64 32
          (Some [7, 7, 7, 7, 7, 7, 7, 7]) (Some [7, 7, 7, 7, 7, 7, 7, 7]) (Some 7)) < 0
   \<and> fst (snd (ffmpeg_ram_get_linesize_offset_length
          \<lparr> le_frame_alloc = True, le_get_buffer = (0, [192, 0, 0, 0, 0, 0, 0, 0]) \<rparr>
          (AV_PIX_FMT_OTHER 2) 64 64 32
          (Some [7, 7, 7, 7, 7, 7, 7, 7]) (Some [7, 7, 7, 7, 7, 7, 7, 7]) (Some 7)))
       = Some [192, 0, 0, 0, 0, 0, 0, 0]
   \<and> fst (snd (snd (ffmpeg_ram_get_linesize_offset_length
          \<lparr> le_frame_alloc = True, le_get_buffer = (0, [192, 0, 0, 0, 0, 0, 0, 0]) \<rparr>
          (AV_PIX_FMT_OTHER 2) 64 64 32
          (Some [7, 7, 7, 7, 7, 7, 7, 7]) (Some [7, 7, 7, 7, 7, 7, 7, 7]) (Some 7))))
       = Some [7, 7, 7, 7, 7, 7, 7, 7]
   \<and> fst (snd (snd (snd (ffmpeg_ram_get_linesize_offset_length
          \<lparr> le_frame_alloc = True, le_get_buffer = (0, [192, 0, 0, 0, 0, 0, 0, 0]) \<rparr>
          (AV_PIX_FMT_OTHER 2) 64 64 32
          (Some [7, 7, 7, 7, 7, 7, 7, 7]) (Some [7, 7, 7, 7, 7, 7, 7, 7]) (Some 7)))))
       = Some 7"
proof -
  let ?eng = "\<lparr> le_frame_alloc = True, le_get_buffer = (0, [192, 0, 0, 0, 0, 0, 0, 0]) \<rparr>"
  let ?c = "ffmpeg_ram_get_linesize_offset_length ?eng (AV_PIX_FMT_OTHER 2) 64 64 32
              (Some [7, 7, 7, 7, 7, 7, 7, 7]) (Some [7, 7, 7, 7, 7, 7, 7, 7]) (Some 7)"
  obtain r lo' oo' l0' tr where c: "?c = (r, lo', oo', l0', tr)"
    by (cases ?c) auto
  have f: "AV_PIX_FMT_OTHER 2 \<noteq> AV_PIX_FMT_YUV420P" "AV_PIX_FMT_OTHER 2 \<noteq> AV_PIX_FMT_NV12"
    by simp_all
  from computeLayout_unsupported_format [OF f c]
  have "oo' = Some [7, 7, 7, 7, 7, 7, 7, 7]" "l0' = Some 7" "r < 0"
       "lo' = Some [192, 0, 0, 0, 0, 0, 0, 0]"
    by (simp_all add: non_null_def arrays)
  then show ?thesis
    unfolding c by simp
qed

text \<open>
  C5 as stated fails: for tag 2 (packed RGB, which the engine can allocate) and a
  picture of 64 by 64, the call returns \<open>-1\<close> after it has overwritten the caller's line
  sizes; and the same call without the offset and length outputs returns 0.
\<close>

theorem computeLayout_unsupported_format_counterexample:
  "ffmpeg_ram_get_linesize_offset_length
     \<lparr> le_frame_alloc = True, le_get_buffer = (0, [192, 0, 0, 0, 0, 0, 0, 0]) \<rparr>
     (AV_PIX_FMT_OTHER 2) 64 64 32
     (Some [7, 7, 7, 7, 7, 7, 7, 7]) (Some [7, 7, 7, 7, 7, 7, 7, 7]) (Some 7)
   = (- 1, Some [192, 0, 0, 0, 0, 0, 0, 0], Some [7, 7, 7, 7, 7, 7, 7, 7], Some 7,
      [Call_frame_get_buffer (AV_PIX_FMT_OTHER 2) 64 64 32, Log_error ''unsupported pixfmt''])
   \<and> ffmpeg_ram_get_linesize_offset_length
     \<lparr> le_frame_alloc = True, le_get_buffer = (0, [192, 0, 0, 0, 0, 0, 0, 0]) \<rparr>
     (AV_PIX_FMT_OTHER 2) 64 64 32
     (Some [7, 7, 7, 7, 7, 7, 7, 7]) None None
   = (0, Some [192, 0, 0, 0, 0, 0, 0, 0], None, None,
      [Call_frame_get_buffer (AV_PIX_FMT_OTHER 2) 64 64 32])"
  by (simp add: ffmpeg_ram_get_linesize_offset_length_def calculate_offset_length_def
        non_null_def arrays Let_def)

subsection \<open>What the drain loop gives\<close>

lemma callbacks_append: "callbacks (xs @ ys) = callbacks xs @ callbacks ys"
  by (induction xs rule: callbacks.induct) auto

lemma callback_pts_append: "callback_pts (xs @ ys) = callback_pts xs @ callback_pts ys"
  by (induction xs rule: callback_pts.induct) auto

lemma logged_append: "logged (xs @ ys) = logged xs @ logged ys"
  by (induction xs rule: logged.induct) auto

lemma receive_loop_result:
  "receive_loop answers obj ms first encoded = (first', encoded', tr) \<Longrightarrow>
   first' = (if packets_pulled answers = 0 then first else if first = 0 then ms else first)
   \<and> encoded' = (encoded \<or> 0 < packets_pulled answers)
   \<and> length (callbacks tr) = packets_pulled answers
   \<and> callback_pts tr
       = replicate (packets_pulled answers) (ms - (if first = 0 then ms else first))
   \<and> logged tr
       = (if stopping_answer answers = AVERROR_EAGAIN then []
          else [''avcodec_receive_packet failed''])"
proof (induction answers arbitrary: first encoded first' encoded' tr)
  case Nil
  then show ?case by auto
next
  case (Cons a answers)
  obtain ret pkt where a: "a = (ret, pkt)" by (cases a)
  show ?case
  proof (cases "ret < 0")
    case True
    with Cons.prems show ?thesis
      unfolding a receive_loop_neg [OF True] by auto
  next
    case False
    let ?f = "if first = 0 then ms else first"
    obtain f2 e2 tr2 where r: "receive_loop answers obj ms ?f True = (f2, e2, tr2)"
      by (cases "receive_loop answers obj ms ?f True")
    from Cons.prems have eq: "first' = f2" "encoded' = e2"
      "tr = Call_receive_packet #
         Callback (pkt_data pkt) (pkt_size pkt) (ms - ?f) (pkt_flags pkt AND AV_PKT_FLAG_KEY) obj # tr2"
      unfolding a receive_loop_packet [OF False r] by simp_all
    have ff: "(if ?f = 0 then ms else ?f) = ?f" by simp
    from Cons.IH [OF r] have ih:
      "f2 = (if packets_pulled answers = 0 then ?f else ?f)"
      "e2 = (True \<or> 0 < packets_pulled answers)"
      "length (callbacks tr2) = packets_pulled answers"
      "callback_pts tr2 = replicate (packets_pulled answers) (ms - ?f)"
      "logged tr2
       = (if stopping_answer answers = AVERROR_EAGAIN then []
          else [''avcodec_receive_packet failed''])"
      unfolding ff by simp_all
    show ?thesis
      unfolding eq a using False ih by simp
  qed
qed

lemma do_encode_result:
  assumes "do_encode s eng fr obj ms = (r, s', tr)"
  shows "(ee_send_frame eng < 0 \<longrightarrow>
            r = ee_send_frame eng \<and> s' = s \<and> callbacks tr = []
            \<and> logged tr = [''avcodec_send_frame failed''])
       \<and> (0 \<le> ee_send_frame eng \<longrightarrow>
            r = (if packets_pulled (ee_receive_packet eng) = 0 then - 1 else 0)
            \<and> length (callbacks tr) = packets_pulled (ee_receive_packet eng)
            \<and> logged tr
                = (if stopping_answer (ee_receive_packet eng) = AVERROR_EAGAIN then []
                   else [''avcodec_receive_packet failed''])
            \<and> callback_pts tr
                = replicate (packets_pulled (ee_receive_packet eng))
                    (ms - (if first_ms_m s = 0 then ms else first_ms_m s))
            \<and> s' = s\<lparr>first_ms_m :=
                       if packets_pulled (ee_receive_packet eng) = 0 then first_ms_m s
                       else if first_ms_m s = 0 then ms else first_ms_m s\<rparr>)"
proof (cases "ee_send_frame eng < 0")
  case True
  with assms show ?thesis by (auto simp: do_encode_def)
next
  case False
  obtain f e t where rl: "receive_loop (ee_receive_packet eng) obj ms (first_ms_m s) False = (f, e, t)"
    by (cases "receive_loop (ee_receive_packet eng) obj ms (first_ms_m s) False")
  from assms False rl have eq: "r = (if e then 0 else - 1)" "s' = s\<lparr>first_ms_m := f\<rparr>"
    "tr = Call_send_frame fr # t @ [Call_packet_unref]"
    by (simp_all add: do_encode_def)
  from receive_loop_result [OF rl] False show ?thesis
    unfolding eq by (simp add: callbacks_append callback_pts_append logged_append)
qed


subsection \<open>The result of encode\<close>

lemma fill_frame_ok_log: "fill_frame fr dat len off = (0, fr', lg) \<Longrightarrow> lg = []"
  by (auto simp: fill_frame_def split: AVPixelFormat.splits if_splits)

lemma encode_sends:
  assumes fr: "frame_m s = Some frame"
    and mw: "ee_make_writable eng = 0"
    and ff: "fill_frame frame dat len (offset_m s) = (0, frame', lg)"
    and td: "hw_device_type_m s \<noteq> AV_HWDEVICE_TYPE_NONE \<Longrightarrow> 0 \<le> ee_transfer_data eng"
    and de: "do_encode (s\<lparr>frame_m := Some frame'\<rparr>) eng
               (if hw_device_type_m s \<noteq> AV_HWDEVICE_TYPE_NONE then hw_frame_m s else Some frame')
               obj ms = (r, s'', tr)"
  shows "encode s eng dat len obj ms =
           Returns (r, s'',
                    Call_frame_make_writable #
                    (if hw_device_type_m s \<noteq> AV_HWDEVICE_TYPE_NONE
                     then [Call_hwframe_transfer_data] else []) @ tr)"
proof -
  have lg: "lg = []" using ff by (rule fill_frame_ok_log)
  show ?thesis
  proof (cases "hw_device_type_m s \<noteq> AV_HWDEVICE_TYPE_NONE")
    case True
    with td have "\<not> ee_transfer_data eng < 0" by simp
    with True fr mw ff de lg show ?thesis
      by (simp add: encode_def)
  next
    case False
    with fr mw ff de lg show ?thesis
      by (simp add: encode_def)
  qed
qed

lemma fill_nv12_64:
  "fill_frame \<lparr>format = AV_PIX_FMT_NV12, width = 64, height = 64,
           linesize = [64, 64, 0, 0, 0, 0, 0, 0],
           data = [0, 0, 0, 0, 0, 0, 0, 0], hw_frames_ctx = None\<rparr> 4096 6144 [4096, 0, 0, 0, 0, 0, 0, 0]
   = (0, \<lparr>format = AV_PIX_FMT_NV12, width = 64, height = 64,
           linesize = [64, 64, 0, 0, 0, 0, 0, 0],
           data = [4096, 8192, 0, 0, 0, 0, 0, 0], hw_frames_ctx = None\<rparr>, [])"
  by (simp add: fill_frame_def c_div_def c_int_def)

text \<open>
  C1, as amended. When the working frame can be made writable, the buffer passes the
  length check and, for a hardware session, the transfer succeeds, then: if the engine
  takes the frame, \<open>encode\<close> returns 0 exactly when the drain loop pulls at least one
  packet and \<open>-1\<close> when it pulls none, whatever negative answer stopped the loop, and the
  callback is invoked once for each packet pulled; the answer that stops the loop shows
  in the error log alone, which gets one message unless that answer is
  \<open>AVERROR(EAGAIN)\<close>. If the engine refuses the frame, \<open>encode\<close> returns the engine's
  negative code, the callback is not invoked and the refusal is logged.
\<close>

theorem encode_result_by_packets:
  assumes fr: "frame_m s = Some frame"
    and mw: "ee_make_writable eng = 0"
    and ff: "fill_frame frame dat len (offset_m s) = (0, frame', lg)"
    and td: "hw_device_type_m s \<noteq> AV_HWDEVICE_TYPE_NONE \<Longrightarrow> 0 \<le> ee_transfer_data eng"
  shows "(0 \<le> ee_send_frame eng \<longrightarrow>
            ret_of (encode s eng dat len obj ms)
              = Some (if packets_pulled (ee_receive_packet eng) = 0 then - 1 else 0)
            \<and> length (callbacks (events_of (encode s eng dat len obj ms)))
                = packets_pulled (ee_receive_packet eng)
            \<and> logged (events_of (encode s eng dat len obj ms))
                = (if stopping_answer (ee_receive_packet eng) = AVERROR_EAGAIN then []
                   else [''avcodec_receive_packet failed'']))
       \<and> (ee_send_frame eng < 0 \<longrightarrow>
            ret_of (encode s eng dat len obj ms) = Some (ee_send_frame eng)
            \<and> callbacks (events_of (encode s eng dat len obj ms)) = []
            \<and> logged (events_of (encode s eng dat len obj ms)) = [''avcodec_send_frame failed''])"
proof -
  let ?fr = "if hw_device_type_m s \<noteq> AV_HWDEVICE_TYPE_NONE then hw_frame_m s else Some frame'"
  obtain r s'' tr where de: "do_encode (s\<lparr>frame_m := Some frame'\<rparr>) eng ?fr obj ms = (r, s'', tr)"
    by (cases "do_encode (s\<lparr>frame_m := Some frame'\<rparr>) eng ?fr obj ms")
  have e: "encode s eng dat len obj ms =
           Returns (r, s'',
                    Call_frame_make_writable #
                    (if hw_device_type_m s \<noteq> AV_HWDEVICE_TYPE_NONE
                     then [Call_hwframe_transfer_data] else []) @ tr)"
    using fr mw ff td de by (rule encode_sends)
  from do_encode_result [OF de] show ?thesis
    unfolding e by (simp add: callbacks_append logged_append)
qed

theorem encode_result_by_packets_witness:
  "ret_of (encode (nv12_session ''libx264'') one_packet_engine 4096 6144 0 0) = Some 0
   \<and> length (callbacks (events_of (encode (nv12_session ''libx264'') one_packet_engine 4096 6144 0 0))) = 1
   \<and> logged (events_of (encode (nv12_session ''libx264'') one_packet_engine 4096 6144 0 0)) = []
   \<and> ret_of (encode (nv12_session ''libx264'') failing_engine 4096 6144 0 0) = Some (- 1)
   \<and> callbacks (events_of (encode (nv12_session ''libx264'') failing_engine 4096 6144 0 0)) = []
   \<and> logged (events_of (encode (nv12_session ''libx264'') failing_engine 4096 6144 0 0))
       = [''avcodec_receive_packet failed'']"
proof -
  have fr: "frame_m (nv12_session ''libx264'') = Some \<lparr>format = AV_PIX_FMT_NV12, width = 64, height = 64,
           linesize = [64, 64, 0, 0, 0, 0, 0, 0],
           data = [0, 0, 0, 0, 0, 0, 0, 0], hw_frames_ctx = None\<rparr>"
    by (simp add: nv12_session_def)
  have ff: "fill_frame \<lparr>format = AV_PIX_FMT_NV12, width = 64, height = 64,
           linesize = [64, 64, 0, 0, 0, 0, 0, 0],
           data = [0, 0, 0, 0, 0, 0, 0, 0], hw_frames_ctx = None\<rparr> 4096 6144 (offset_m (nv12_session ''libx264''))
   = (0, \<lparr>format = AV_PIX_FMT_NV12, width = 64, height = 64,
           linesize = [64, 64, 0, 0, 0, 0, 0, 0],
           data = [4096, 8192, 0, 0, 0, 0, 0, 0], hw_frames_ctx = None\<rparr>, [])"
    using fill_nv12_64 by (simp add: nv12_session_def)
  have hw: "hw_device_type_m (nv12_session ''libx264'') = AV_HWDEVICE_TYPE_NONE"
    by (simp add: nv12_session_def)
  have one: "ret_of (encode (nv12_session ''libx264'') one_packet_engine 4096 6144 0 0)
              = Some (if packets_pulled (ee_receive_packet one_packet_engine) = 0 then - 1 else 0)
          \<and> length (callbacks (events_of (encode (nv12_session ''libx264'') one_packet_engine 4096 6144 0 0)))
                = packets_pulled (ee_receive_packet one_packet_engine)
          \<and> logged (events_of (encode (nv12_session ''libx264'') one_packet_engine 4096 6144 0 0))
                = (if stopping_answer (ee_receive_packet one_packet_engine) = AVERROR_EAGAIN then []
                   else [''avcodec_receive_packet failed''])"
    using fr ff hw encode_result_by_packets [of "nv12_session ''libx264''" _ one_packet_engine 4096 6144 _ _ 0 0]
    by (simp add: one_packet_engine_def)
  have fail: "ret_of (encode (nv12_session ''libx264'') failing_engine 4096 6144 0 0)
              = Some (if packets_pulled (ee_receive_packet failing_engine) = 0 then - 1 else 0)
          \<and> length (callbacks (events_of (encode (nv12_session ''libx264'') failing_engine 4096 6144 0 0)))
                = packets_pulled (ee_receive_packet failing_engine)
          \<and> logged (events_of (encode (nv12_session ''libx264'') failing_engine 4096 6144 0 0))
                = (if stopping_answer (ee_receive_packet failing_engine) = AVERROR_EAGAIN then []
                   else [''avcodec_receive_packet failed''])"
    using fr ff hw encode_result_by_packets [of "nv12_session ''libx264''" _ failing_engine 4096 6144 _ _ 0 0]
    by (simp add: failing_engine_def)
  from one fail show ?thesis
    by (simp add: one_packet_engine_def failing_engine_def AVERROR_EAGAIN_def)
qed

text \<open>
  C1 as stated fails: the engine takes the frame and answers \<open>AVERROR(EAGAIN)\<close> to the
  first \<open>avcodec_receive_packet\<close>; the callback is not invoked and \<open>encode\<close> returns \<open>-1\<close>,
  not 0.
\<close>

theorem encode_not_ready_counterexample:
  "ee_send_frame not_ready_engine = 0
   \<and> ee_receive_packet not_ready_engine = [(AVERROR_EAGAIN, empty_packet)]
   \<and> ret_of (encode (nv12_session ''libx264'') not_ready_engine 4096 6144 0 0) = Some (- 1)
   \<and> callbacks (events_of (encode (nv12_session ''libx264'') not_ready_engine 4096 6144 0 0)) = []"
  by (simp add: encode_def do_encode_def nv12_session_def not_ready_engine_def fill_nv12_64
        AVERROR_EAGAIN_def)


subsection \<open>The length check of fill\_frame\<close>

text \<open>
  A buffer shorter than \<open>height * (linesize[0] + linesize[1] / 2)\<close> for NV12, or than
  \<open>height * (linesize[0] + linesize[1] / 2 + linesize[2] / 2)\<close> for YUV420P, both in
  \<open>int\<close> arithmetic, is refused:
  \<open>encode\<close> returns \<open>-1\<close>, the session is as before, the callback is not invoked and no
  frame is sent to the engine.
\<close>

lemma short_buffer_refused:
  assumes fr: "frame_m s = Some frame"
    and mw: "ee_make_writable eng = 0"
    and nv12: "format frame = AV_PIX_FMT_NV12 \<Longrightarrow>
                 len < c_int (height frame *
                              c_int (linesize frame ! 0 + c_div (linesize frame ! 1) 2))"
    and planar: "format frame = AV_PIX_FMT_YUV420P \<Longrightarrow>
                 len < c_int (height frame *
                              c_int (c_int (linesize frame ! 0 + c_div (linesize frame ! 1) 2)
                                     + c_div (linesize frame ! 2) 2))"
  shows "ret_of (encode s eng dat len obj ms) = Some (- 1)
       \<and> state_of (encode s eng dat len obj ms) = Some s
       \<and> callbacks (events_of (encode s eng dat len obj ms)) = []
       \<and> sent_frames (events_of (encode s eng dat len obj ms)) = []"
proof -
  obtain lg where ff: "fill_frame frame dat len (offset_m s) = (- 1, frame, lg)"
    and lg: "callbacks lg = []" "sent_frames lg = []"
    using nv12 planar by (cases "format frame") (simp_all add: fill_frame_def)
  have same: "s\<lparr>frame_m := Some frame\<rparr> = s"
    using fr by simp
  show ?thesis
    using fr mw ff lg same by (simp add: encode_def)
qed

lemma yuv420p_layout:
  "ffmpeg_ram_get_linesize_offset_length
     \<lparr> le_frame_alloc = True, le_get_buffer = (0, [1366, 683, 683, 0, 0, 0, 0, 0]) \<rparr>
     AV_PIX_FMT_YUV420P 1366 768 1 None (Some [0, 0, 0, 0, 0, 0, 0, 0]) (Some 0)
   = (0, None, Some [1049088, 1311360, 0, 0, 0, 0, 0, 0], Some 1573632,
      [Call_frame_get_buffer AV_PIX_FMT_YUV420P 1366 768 1])"
  by (simp add: ffmpeg_ram_get_linesize_offset_length_def calculate_offset_length_def
        non_null_def arrays c_div_def c_int_def Let_def)

lemma yuv420p_session_created:
  "fst (ffmpeg_ram_new_encoder False Map.empty (Some 1)
          (willing_engine empty_frame [1366, 683, 683, 0, 0, 0, 0, 0])
          ''libx264'' 1366 768 AV_PIX_FMT_YUV420P 1 500000 1 30 9999 0 0 1 0
          [0, 0, 0, 0, 0, 0, 0, 0] [0, 0, 0, 0, 0, 0, 0, 0] (Some 0)) = Some 1
   \<and> fst (snd (ffmpeg_ram_new_encoder False Map.empty (Some 1)
          (willing_engine empty_frame [1366, 683, 683, 0, 0, 0, 0, 0])
          ''libx264'' 1366 768 AV_PIX_FMT_YUV420P 1 500000 1 30 9999 0 0 1 0
          [0, 0, 0, 0, 0, 0, 0, 0] [0, 0, 0, 0, 0, 0, 0, 0] (Some 0))) = [1 \<mapsto> yuv420p_session]"
  by (simp add: ffmpeg_ram_new_encoder_def FFmpegRamEncoder_new_def init_def init_sw_def configure_def
        willing_engine_def default_context_def empty_frame_def empty_packet_def yuv420p_session_def
        contains_def yuv420p_layout arrays Let_def
        AV_CODEC_FLAG2_LOCAL_HEADER_def AV_CODEC_FLAG_LOW_DELAY_def FF_THREAD_SLICE_def
        AVCOL_RANGE_MPEG_def AVCOL_SPC_SMPTE170M_def AVCOL_PRI_SMPTE170M_def AVCOL_TRC_SMPTE170M_def)

text \<open>
  C4 fails on the code where a chroma line size is odd. For YUV420P frames of 1366 by
  768 with alignment 1 the line sizes are 1366, 683 and 683, and the required length
  that \<open>ffmpeg_ram_get_linesize_offset_length\<close> computes is 1573632; the check of
  \<open>fill_frame\<close> halves each chroma line size first and compares with
  \<open>768 * (1366 + 341 + 341) = 1572864\<close>. A buffer of 1573000 bytes is below the required
  length and still passes: the frame, with its third plane starting at byte 1311360 of
  the buffer, is sent to the engine, the callback is invoked and \<open>encode\<close> returns 0.
\<close>

theorem encode_short_buffer_sent:
  "ffmpeg_ram_get_linesize_offset_length
     \<lparr> le_frame_alloc = True, le_get_buffer = (0, [1366, 683, 683, 0, 0, 0, 0, 0]) \<rparr>
     AV_PIX_FMT_YUV420P 1366 768 1 None (Some [0, 0, 0, 0, 0, 0, 0, 0]) (Some 0)
   = (0, None, Some [1049088, 1311360, 0, 0, 0, 0, 0, 0], Some 1573632,
      [Call_frame_get_buffer AV_PIX_FMT_YUV420P 1366 768 1])
   \<and> ret_of (encode yuv420p_session one_packet_engine 4096 1573000 0 0) = Some 0
   \<and> length (callbacks (events_of (encode yuv420p_session one_packet_engine 4096 1573000 0 0))) = 1
   \<and> sent_frames (events_of (encode yuv420p_session one_packet_engine 4096 1573000 0 0))
       = [Some \<lparr>format = AV_PIX_FMT_YUV420P, width = 1366, height = 768,
                 linesize = [1366, 683, 683, 0, 0, 0, 0, 0],
                 data = [4096, 1053184, 1315456, 0, 0, 0, 0, 0], hw_frames_ctx = None\<rparr>]"
  by (simp add: yuv420p_layout encode_def do_encode_def fill_frame_def c_div_def c_int_def
        yuv420p_session_def one_packet_engine_def)

subsection \<open>The first timestamp\<close>

text \<open>
  C3 fails on the code when the first timestamp is 0. \<open>first_ms_\<close> is latched whenever it
  is 0 at a packet, so a first packet at timestamp 0 leaves it unlatched and the next
  packet latches it again: for frames at 0, 33 and 66 milliseconds, each giving one
  packet, the callback gets the \<open>pts\<close> values 0, 0 and 33 instead of 0, 33 and 66, and
  \<open>first_ms_\<close> ends as 33.
\<close>

theorem first_ms_relatched_at_zero:
  "ret_of (encode_frames (nv12_session ''libx264'')
             [(one_packet_engine, 4096, 6144, 0, 0),
              (one_packet_engine, 4096, 6144, 0, 33),
              (one_packet_engine, 4096, 6144, 0, 66)]) = Some [0, 0, 0]
   \<and> callback_pts (events_of (encode_frames (nv12_session ''libx264'')
             [(one_packet_engine, 4096, 6144, 0, 0),
              (one_packet_engine, 4096, 6144, 0, 33),
              (one_packet_engine, 4096, 6144, 0, 66)])) = [0, 0, 33]
   \<and> map_option first_ms_m (state_of (encode_frames (nv12_session ''libx264'')
             [(one_packet_engine, 4096, 6144, 0, 0),
              (one_packet_engine, 4096, 6144, 0, 33),
              (one_packet_engine, 4096, 6144, 0, 66)])) = Some 33"
  by (simp add: encode_def do_encode_def fill_frame_def c_div_def c_int_def
        nv12_session_def one_packet_engine_def)

subsection \<open>The order of the engine calls in init\<close>

lemma set_hwframe_ctx_cases:
  assumes "set_hwframe_ctx s eng c = (err, c', tr)"
  shows "(err = 0 \<longrightarrow>
            tr = [Call_hwframe_ctx_alloc, Call_hwframe_ctx_init (pool_of s), Call_buffer_ref,
                  Call_buffer_unref]
            \<and> c' = c\<lparr>cc_hw_frames_ctx := Some (pool_of s)\<rparr>)
       \<and> (\<forall>x. Call_avcodec_open2 x \<notin> set tr)
       \<and> cc_bit_rate c' = cc_bit_rate c"
  using assms
  by (auto simp: set_hwframe_ctx_def pool_of_def Let_def split: if_splits)

lemma init_hw_cases:
  assumes "init_hw win32 s eng c = (ok, s', c', tr)"
  shows "(ok \<longrightarrow>
            (\<exists>dev. tr = [Call_hwdevice_ctx_create (hw_device_type_m s) dev,
                         Call_hwframe_ctx_alloc, Call_hwframe_ctx_init (pool_of s),
                         Call_buffer_ref, Call_buffer_unref, Call_hwframe_get_buffer])
            \<and> c' = c\<lparr>cc_hw_frames_ctx := Some (pool_of s)\<rparr>)
       \<and> (\<forall>x. Call_avcodec_open2 x \<notin> set tr)
       \<and> cc_bit_rate c' = cc_bit_rate c
       \<and> bit_rate_m s' = bit_rate_m s \<and> name_m s' = name_m s"
proof -
  obtain err c2 tr2 where sh: "set_hwframe_ctx (s\<lparr>hw_device_ctx_m := True\<rparr>) eng c = (err, c2, tr2)"
    by (cases "set_hwframe_ctx (s\<lparr>hw_device_ctx_m := True\<rparr>) eng c")
  obtain g hwf where gb: "ie_hwframe_get_buffer eng = (g, hwf)"
    by (cases "ie_hwframe_get_buffer eng")
  have p: "pool_of (s\<lparr>hw_device_ctx_m := True\<rparr>) = pool_of s"
    by (simp add: pool_of_def)
  from set_hwframe_ctx_cases [OF sh] assms show ?thesis
    unfolding p
    by (auto simp: init_hw_def sh gb Let_def split: if_splits)
qed

lemma cc_hw_frames_ctx_configure: "cc_hw_frames_ctx (configure s c) = cc_hw_frames_ctx c"
  by (simp add: configure_def Let_def)

lemma cc_bit_rate_configure:
  "cc_bit_rate (configure s c) = (if 1000 \<le> bit_rate_m s then bit_rate_m s else cc_bit_rate c)"
  by (simp add: configure_def Let_def)

lemma layout_no_open:
  "ffmpeg_ram_get_linesize_offset_length le fmt w h al lo oo l0 = (r, lo', oo', l0', tr) \<Longrightarrow>
   Call_avcodec_open2 x \<notin> set tr"
  by (auto simp: ffmpeg_ram_get_linesize_offset_length_def calculate_offset_length_def Let_def
           split: if_splits prod.splits AVPixelFormat.splits)

lemma init_sw_open:
  assumes "init_sw s eng c lo oo l0 = (ok, s', lo', oo', l0', tr)"
  shows "(\<forall>x. Call_avcodec_open2 x \<in> set tr \<longrightarrow> x = configure s c)
       \<and> (ok \<longrightarrow> Call_avcodec_open2 (configure s c) \<in> set tr \<and> c_m s' = Some (configure s c))"
  using assms
  by (auto simp: init_sw_def Let_def split: option.splits prod.splits if_splits
           dest: layout_no_open)


lemma split_after_prefix:
  assumes "xs @ ys = pre @ e # post" "e \<notin> set xs"
  shows "\<exists>pre'. pre = xs @ pre' \<and> ys = pre' @ e # post"
  using assms
  by (auto simp: append_eq_append_conv2 append_eq_Cons_conv)

lemma no_open_no_split:
  assumes "\<And>x. Call_avcodec_open2 x \<notin> set tr"
  shows "tr \<noteq> pre @ Call_avcodec_open2 c # post"
proof
  assume "tr = pre @ Call_avcodec_open2 c # post"
  then have "Call_avcodec_open2 c \<in> set tr" by simp
  with assms show False by blast
qed

text \<open>
  C6. In every run of \<open>init\<close> on a session with a hardware device type, whatever the
  engine answers: whenever \<open>avcodec_open2\<close> is called, the calls before it contain
  \<open>av_hwframe_ctx_init\<close> on a pool whose \<open>initial_pool_size\<close> is 1, followed by the
  \<open>av_buffer_ref\<close> that binds the pool to \<open>c_->hw_frames_ctx\<close>, and the codec context
  handed to \<open>avcodec_open2\<close> carries that pool. A run that succeeds does call
  \<open>avcodec_open2\<close>.
\<close>

theorem hw_pool_bound_before_open:
  assumes hw: "hw_device_type_m s \<noteq> AV_HWDEVICE_TYPE_NONE"
    and i: "init win32 s eng lo oo l0 = (ok, s', lo', oo', l0', tr)"
  shows "(\<forall>pre c post. tr = pre @ Call_avcodec_open2 c # post \<longrightarrow>
            (\<exists>fc a b d. pre = a @ Call_hwframe_ctx_init fc # b @ Call_buffer_ref # d
                        \<and> hwfc_initial_pool_size fc = 1
                        \<and> cc_hw_frames_ctx c = Some fc))
       \<and> (ok \<longrightarrow> (\<exists>pre c post. tr = pre @ Call_avcodec_open2 c # post))"
proof (cases "ie_find_encoder eng")
  case False
  with i have "tr = [Log_error ''Codec not found'']" "\<not> ok"
    by (simp_all add: init_def)
  then show ?thesis
    by (auto simp: Cons_eq_append_conv)
next
  case fe: True
  show ?thesis
  proof (cases "ie_alloc_context eng")
    case None
    with i fe have "tr = [Log_error ''Could not allocate video codec context'']" "\<not> ok"
      by (simp_all add: init_def)
    then show ?thesis
      by (auto simp: Cons_eq_append_conv)
  next
    case (Some c0)
    let ?s1 = "s\<lparr>c_m := Some c0\<rparr>"
    obtain okh s2 c1 tr1 where ih: "init_hw win32 ?s1 eng c0 = (okh, s2, c1, tr1)"
      by (cases "init_hw win32 ?s1 eng c0")
    note hwc = init_hw_cases [OF ih]
    have noopen: "Call_avcodec_open2 x \<notin> set tr1" for x
      using hwc by simp
    show ?thesis
    proof (cases okh)
      case False
      with i fe Some hw ih have "tr = tr1" "\<not> ok"
        by (simp_all add: init_def)
      then show ?thesis
        using no_open_no_split [of tr1, OF noopen] by simp
    next
      case True
      obtain oks s3 ls3 off3 len3 tr2 where
        sw: "init_sw s2 eng c1 lo oo l0 = (oks, s3, ls3, off3, len3, tr2)"
        by (cases "init_sw s2 eng c1 lo oo l0") auto
      from i fe Some hw ih True sw have res: "tr = tr1 @ tr2" "ok = oks"
        by (simp_all add: init_def)
      have p: "pool_of ?s1 = pool_of s" by (simp add: pool_of_def)
      from hwc True obtain dev where
        tr1: "tr1 = [Call_hwdevice_ctx_create (hw_device_type_m ?s1) dev,
                     Call_hwframe_ctx_alloc, Call_hwframe_ctx_init (pool_of s),
                     Call_buffer_ref, Call_buffer_unref, Call_hwframe_get_buffer]"
        and c1: "c1 = c0\<lparr>cc_hw_frames_ctx := Some (pool_of s)\<rparr>"
        unfolding p by auto
      note swo = init_sw_open [OF sw]
      have first: "\<exists>fc a b d. pre = a @ Call_hwframe_ctx_init fc # b @ Call_buffer_ref # d
                        \<and> hwfc_initial_pool_size fc = 1
                        \<and> cc_hw_frames_ctx c = Some fc"
        if t: "tr = pre @ Call_avcodec_open2 c # post" for pre c post
      proof -
        from t res have "tr1 @ tr2 = pre @ Call_avcodec_open2 c # post" by simp
        from split_after_prefix [OF this noopen] obtain pre' where
          pre: "pre = tr1 @ pre'" and tr2: "tr2 = pre' @ Call_avcodec_open2 c # post"
          by blast
        from tr2 have "Call_avcodec_open2 c \<in> set tr2" by simp
        with swo have "c = configure s2 c1" by blast
        then have ctx: "cc_hw_frames_ctx c = Some (pool_of s)"
          by (simp add: cc_hw_frames_ctx_configure c1)
        have "pre = [Call_hwdevice_ctx_create (hw_device_type_m ?s1) dev, Call_hwframe_ctx_alloc]
                    @ Call_hwframe_ctx_init (pool_of s) # [] @ Call_buffer_ref
                    # ([Call_buffer_unref, Call_hwframe_get_buffer] @ pre')"
          unfolding pre tr1 by simp
        moreover have "hwfc_initial_pool_size (pool_of s) = 1"
          by (simp add: pool_of_def)
        ultimately show ?thesis
          using ctx by blast
      qed
      have second: "\<exists>pre c post. tr = pre @ Call_avcodec_open2 c # post" if ok
      proof -
        from that res swo have "Call_avcodec_open2 (configure s2 c1) \<in> set tr" by simp
        then show ?thesis
          by (meson split_list)
      qed
      show ?thesis
        using first second by blast
    qed
  qed
qed


lemma vaapi_new_hw: "hw_device_type_m vaapi_new = AV_HWDEVICE_TYPE_VAAPI"
  by (simp add: vaapi_new_def FFmpegRamEncoder_new_def contains_def Let_def)

lemma vaapi_init_ok:
  "fst (init False vaapi_new (willing_engine vaapi_frame [64, 64, 0, 0, 0, 0, 0, 0])
          [0, 0, 0, 0, 0, 0, 0, 0] [0, 0, 0, 0, 0, 0, 0, 0] (Some 0))"
  by (simp add: vaapi_new_def FFmpegRamEncoder_new_def init_def init_hw_def set_hwframe_ctx_def
        init_sw_def willing_engine_def vaapi_frame_def default_context_def empty_frame_def
        empty_packet_def contains_def layout_nv12_64 arrays Let_def)

theorem hw_pool_bound_before_open_witness:
  "\<exists>pre c post fc a b d.
     snd (snd (snd (snd (snd (init False vaapi_new
            (willing_engine vaapi_frame [64, 64, 0, 0, 0, 0, 0, 0])
            [0, 0, 0, 0, 0, 0, 0, 0] [0, 0, 0, 0, 0, 0, 0, 0] (Some 0))))))
       = pre @ Call_avcodec_open2 c # post
     \<and> pre = a @ Call_hwframe_ctx_init fc # b @ Call_buffer_ref # d
     \<and> hwfc_initial_pool_size fc = 1
     \<and> cc_hw_frames_ctx c = Some fc"
proof -
  let ?r = "init False vaapi_new (willing_engine vaapi_frame [64, 64, 0, 0, 0, 0, 0, 0])
              [0, 0, 0, 0, 0, 0, 0, 0] [0, 0, 0, 0, 0, 0, 0, 0] (Some 0)"
  obtain ok s' lo' oo' l0' tr where r: "?r = (ok, s', lo', oo', l0', tr)"
    by (cases ?r) auto
  have hw: "hw_device_type_m vaapi_new \<noteq> AV_HWDEVICE_TYPE_NONE"
    by (simp add: vaapi_new_hw)
  have ok: ok using vaapi_init_ok unfolding r by simp
  note t = hw_pool_bound_before_open [OF hw r]
  from t ok obtain pre c post where sp: "tr = pre @ Call_avcodec_open2 c # post"
    by blast
  with t obtain fc a b d where f: "pre = a @ Call_hwframe_ctx_init fc # b @ Call_buffer_ref # d"
    "hwfc_initial_pool_size fc = 1" "cc_hw_frames_ctx c = Some fc"
    by blast
  have e: "snd (snd (snd (snd (snd ?r)))) = tr"
    by (simp add: r)
  from sp f show ?thesis
    unfolding e by blast
qed

subsection \<open>The bitrate at creation\<close>

lemma init_sw_bit_rate:
  "fst (init_sw (s\<lparr>bit_rate_m := b\<rparr>) eng c lo oo l0) = fst (init_sw s eng c lo oo l0)"
proof (cases "ie_frame_alloc eng")
  case None
  then show ?thesis by (simp add: init_sw_def)
next
  case (Some f0)
  obtain g ls where gb: "ie_frame_get_buffer eng = (g, ls)"
    by (cases "ie_frame_get_buffer eng")
  obtain r x off' len' tr4 where
    ly: "ffmpeg_ram_get_linesize_offset_length (ie_layout eng) (pixfmt_m s) (width_m s)
           (height_m s) (align_m s) None (Some (offset_m s)) l0 = (r, x, off', len', tr4)"
    by (cases "ffmpeg_ram_get_linesize_offset_length (ie_layout eng) (pixfmt_m s) (width_m s)
           (height_m s) (align_m s) None (Some (offset_m s)) l0") auto
  show ?thesis
    by (simp add: init_sw_def Some gb ly Let_def)
qed


lemma init_hw_bit_rate:
  assumes "init_hw win32 s eng c = (ok, s', c', tr)"
  shows "init_hw win32 (s\<lparr>bit_rate_m := b\<rparr>) eng c = (ok, s'\<lparr>bit_rate_m := b\<rparr>, c', tr)"
proof -
  have h: "set_hwframe_ctx (s\<lparr>bit_rate_m := b, hw_device_ctx_m := True\<rparr>) eng c
           = set_hwframe_ctx (s\<lparr>hw_device_ctx_m := True\<rparr>) eng c"
    by (simp add: set_hwframe_ctx_def)
  obtain err c2 tr2 where sh: "set_hwframe_ctx (s\<lparr>hw_device_ctx_m := True\<rparr>) eng c = (err, c2, tr2)"
    by (cases "set_hwframe_ctx (s\<lparr>hw_device_ctx_m := True\<rparr>) eng c")
  obtain g hwf where gb: "ie_hwframe_get_buffer eng = (g, hwf)"
    by (cases "ie_hwframe_get_buffer eng")
  show ?thesis
    using assms
    by (auto simp: init_hw_def h sh gb Let_def split: if_splits)
qed


lemma init_hw_path:
  assumes "ie_find_encoder eng" "ie_alloc_context eng = Some c0"
    and "hw_device_type_m s \<noteq> AV_HWDEVICE_TYPE_NONE"
    and "init_hw win32 (s\<lparr>c_m := Some c0\<rparr>) eng c0 = (okh, s2, c1, tr1)"
    and "init_sw s2 eng c1 lo oo l0 = (oks, s3, ls3, off3, len3, tr2)"
  shows "init win32 s eng lo oo l0 =
           (if okh then (oks, s3, ls3, off3, len3, tr1 @ tr2) else (False, s2, lo, oo, l0, tr1))"
  using assms by (simp add: init_def)

lemma init_sw_path:
  assumes "ie_find_encoder eng" "ie_alloc_context eng = Some c0"
    and "hw_device_type_m s = AV_HWDEVICE_TYPE_NONE"
  shows "init win32 s eng lo oo l0 = init_sw (s\<lparr>c_m := Some c0\<rparr>) eng c0 lo oo l0"
  using assms by (simp add: init_def)

lemma init_bit_rate:
  "fst (init win32 (s\<lparr>bit_rate_m := b\<rparr>) eng lo oo l0) = fst (init win32 s eng lo oo l0)"
proof (cases "ie_find_encoder eng")
  case False
  then show ?thesis by (simp add: init_def)
next
  case fe: True
  show ?thesis
  proof (cases "ie_alloc_context eng")
    case None
    with fe show ?thesis by (simp add: init_def)
  next
    case (Some c0)
    have u: "(s\<lparr>bit_rate_m := b\<rparr>)\<lparr>c_m := Some c0\<rparr> = (s\<lparr>c_m := Some c0\<rparr>)\<lparr>bit_rate_m := b\<rparr>"
      by simp
    show ?thesis
    proof (cases "hw_device_type_m s = AV_HWDEVICE_TYPE_NONE")
      case True
      then have t': "hw_device_type_m (s\<lparr>bit_rate_m := b\<rparr>) = AV_HWDEVICE_TYPE_NONE" by simp
      show ?thesis
        unfolding init_sw_path [OF fe Some True] init_sw_path [OF fe Some t'] u
        by (rule init_sw_bit_rate)
    next
      case False
      then have f': "hw_device_type_m (s\<lparr>bit_rate_m := b\<rparr>) \<noteq> AV_HWDEVICE_TYPE_NONE" by simp
      obtain okh s2 c1 tr1 where
        ih: "init_hw win32 (s\<lparr>c_m := Some c0\<rparr>) eng c0 = (okh, s2, c1, tr1)"
        by (cases "init_hw win32 (s\<lparr>c_m := Some c0\<rparr>) eng c0")
      have ih': "init_hw win32 ((s\<lparr>bit_rate_m := b\<rparr>)\<lparr>c_m := Some c0\<rparr>) eng c0
                 = (okh, s2\<lparr>bit_rate_m := b\<rparr>, c1, tr1)"
        unfolding u using ih by (rule init_hw_bit_rate)
      obtain oks s3 ls3 off3 len3 tr2 where
        sw: "init_sw s2 eng c1 lo oo l0 = (oks, s3, ls3, off3, len3, tr2)"
        by (cases "init_sw s2 eng c1 lo oo l0") auto
      obtain oks' s3' ls3' off3' len3' tr2' where
        sw': "init_sw (s2\<lparr>bit_rate_m := b\<rparr>) eng c1 lo oo l0 = (oks', s3', ls3', off3', len3', tr2')"
        by (cases "init_sw (s2\<lparr>bit_rate_m := b\<rparr>) eng c1 lo oo l0") auto
      have "fst (init_sw (s2\<lparr>bit_rate_m := b\<rparr>) eng c1 lo oo l0) = fst (init_sw s2 eng c1 lo oo l0)"
        by (rule init_sw_bit_rate)
      then have same: "oks' = oks" by (simp add: sw sw')
      show ?thesis
        unfolding init_hw_path [OF fe Some False ih sw] init_hw_path [OF fe Some f' ih' sw']
        by (simp add: same)
    qed
  qed
qed

lemma new_bit_rate:
  "FFmpegRamEncoder_new win32 name w h pixfmt align b tbn tbd gop quality rc thread_count gpu
   = (FFmpegRamEncoder_new win32 name w h pixfmt align bit_rate tbn tbd gop quality rc thread_count gpu)
       \<lparr>bit_rate_m := b\<rparr>"
  by (simp add: FFmpegRamEncoder_new_def Let_def)

lemma init_opens_configured:
  assumes ac: "ie_alloc_context eng = Some c0"
    and i: "init win32 s eng lo oo l0 = (ok, s', lo', oo', l0', tr)"
  shows "(\<forall>c. Call_avcodec_open2 c \<in> set tr \<longrightarrow>
            cc_bit_rate c = (if 1000 \<le> bit_rate_m s then bit_rate_m s else cc_bit_rate c0))
       \<and> (ok \<longrightarrow> (\<exists>c. c_m s' = Some c \<and> Call_avcodec_open2 c \<in> set tr))"
proof (cases "ie_find_encoder eng")
  case False
  with i have "tr = [Log_error ''Codec not found'']" "\<not> ok"
    by (simp_all add: init_def)
  then show ?thesis by simp
next
  case fe: True
  let ?s1 = "s\<lparr>c_m := Some c0\<rparr>"
  show ?thesis
  proof (cases "hw_device_type_m s = AV_HWDEVICE_TYPE_NONE")
    case True
    from i have sw: "init_sw ?s1 eng c0 lo oo l0 = (ok, s', lo', oo', l0', tr)"
      unfolding init_sw_path [OF fe ac True] .
    have br: "cc_bit_rate (configure ?s1 c0)
              = (if 1000 \<le> bit_rate_m s then bit_rate_m s else cc_bit_rate c0)"
      by (simp add: cc_bit_rate_configure)
    from init_sw_open [OF sw] br show ?thesis
      by metis
  next
    case hw: False
    obtain okh s2 c1 tr1 where ih: "init_hw win32 ?s1 eng c0 = (okh, s2, c1, tr1)"
      by (cases "init_hw win32 ?s1 eng c0")
    note hwc = init_hw_cases [OF ih]
    obtain oks s3 ls3 off3 len3 tr2 where
      sw: "init_sw s2 eng c1 lo oo l0 = (oks, s3, ls3, off3, len3, tr2)"
      by (cases "init_sw s2 eng c1 lo oo l0") auto
    note ip = i [unfolded init_hw_path [OF fe ac hw ih sw]]
    have noopen: "Call_avcodec_open2 x \<notin> set tr1" for x
      using hwc by simp
    show ?thesis
    proof (cases okh)
      case False
      with ip have "tr = tr1" "\<not> ok"
        by simp_all
      with noopen show ?thesis by simp
    next
      case True
      with ip have res: "tr = tr1 @ tr2" "ok = oks" "s' = s3"
        by simp_all
      have br: "cc_bit_rate (configure s2 c1)
                = (if 1000 \<le> bit_rate_m s then bit_rate_m s else cc_bit_rate c0)"
        using hwc by (simp add: cc_bit_rate_configure)
      note swo = init_sw_open [OF sw]
      have a: "cc_bit_rate c = (if 1000 \<le> bit_rate_m s then bit_rate_m s else cc_bit_rate c0)"
        if "Call_avcodec_open2 c \<in> set tr" for c
      proof -
        from that noopen have "Call_avcodec_open2 c \<in> set tr2"
          unfolding res by simp
        with swo have "c = configure s2 c1" by blast
        with br show ?thesis by simp
      qed
      have b: "\<exists>c. c_m s' = Some c \<and> Call_avcodec_open2 c \<in> set tr" if ok
      proof -
        from that swo have "c_m s3 = Some (configure s2 c1)"
          "Call_avcodec_open2 (configure s2 c1) \<in> set tr2"
          unfolding res by simp_all
        then show ?thesis
          unfolding res by auto
      qed
      show ?thesis
        using a b by blast
    qed
  qed
qed

text \<open>
  C8. In every run of \<open>ffmpeg_ram_new_encoder\<close>, whatever the engine answers: the codec
  context handed to \<open>avcodec_open2\<close>, which is the context of the session that is
  created, has the caller's bitrate as its \<open>bit_rate\<close> when that bitrate is at least 1000
  and the value \<open>avcodec_alloc_context3\<close> gave otherwise; and with the same answers of
  the engine the creation succeeds or fails alike for every bitrate, so a bitrate below
  1000 is no error.
\<close>

theorem bitrate_set_from_1000:
  assumes ac: "ie_alloc_context eng = Some c0"
    and n: "ffmpeg_ram_new_encoder win32 hp (Some p) eng name w h pixfmt align bit_rate tbn tbd
              gop quality rc thread_count gpu lo oo l0 = (handle, hp', lo', oo', l0', tr)"
  shows "(\<forall>c. Call_avcodec_open2 c \<in> set tr \<longrightarrow>
            cc_bit_rate c = (if 1000 \<le> bit_rate then bit_rate else cc_bit_rate c0))
       \<and> (handle \<noteq> None \<longrightarrow>
            (\<exists>s c. hp' p = Some s \<and> c_m s = Some c \<and> Call_avcodec_open2 c \<in> set tr))
       \<and> (\<forall>b. fst (ffmpeg_ram_new_encoder win32 hp (Some p) eng name w h pixfmt align b tbn tbd
                       gop quality rc thread_count gpu lo oo l0) = handle)"
proof -
  let ?s = "FFmpegRamEncoder_new win32 name w h pixfmt align bit_rate tbn tbd gop quality rc
              thread_count gpu"
  obtain ok s' ls off len t where i: "init win32 ?s eng lo oo l0 = (ok, s', ls, off, len, t)"
    by (cases "init win32 ?s eng lo oo l0") auto
  obtain sf freed where fe: "free_encoder s' = (sf, freed)"
    by (cases "free_encoder s'")
  have nofree: "Call_avcodec_open2 c \<notin> set freed" for c
    using fe by (auto simp: free_encoder_def split: option.splits if_splits)
  from n i fe have res: "tr = (if ok then t else t @ freed)"
    "handle = (if ok then Some p else None)"
    "ok \<Longrightarrow> hp' = hp(p \<mapsto> s')"
    by (auto simp: ffmpeg_ram_new_encoder_def split: if_splits)
  have b: "bit_rate_m ?s = bit_rate"
    by (simp add: FFmpegRamEncoder_new_def Let_def)
  note io = init_opens_configured [OF ac i, unfolded b]
  have indep: "fst (ffmpeg_ram_new_encoder win32 hp (Some p) eng name w h pixfmt align b tbn tbd
                       gop quality rc thread_count gpu lo oo l0) = handle" for b
  proof -
    obtain ok2 s2 ls2 off2 len2 t2 where
      i2: "init win32 (?s\<lparr>bit_rate_m := b\<rparr>) eng lo oo l0 = (ok2, s2, ls2, off2, len2, t2)"
      by (cases "init win32 (?s\<lparr>bit_rate_m := b\<rparr>) eng lo oo l0") auto
    have "fst (init win32 (?s\<lparr>bit_rate_m := b\<rparr>) eng lo oo l0) = fst (init win32 ?s eng lo oo l0)"
      by (rule init_bit_rate)
    then have "ok2 = ok" by (simp add: i i2)
    then show ?thesis
      unfolding ffmpeg_ram_new_encoder_def
        new_bit_rate [of win32 name w h pixfmt align b, where bit_rate = bit_rate]
      by (simp add: i2 res(2) split: prod.split)
  qed
  have opens: "Call_avcodec_open2 c \<in> set tr \<longleftrightarrow> Call_avcodec_open2 c \<in> set t" for c
    using res(1) nofree by auto
  show ?thesis
    using io res(2,3) indep unfolding opens by auto
qed


theorem bitrate_set_from_1000_witness:
  "\<exists>s c. fst (snd (ffmpeg_ram_new_encoder False Map.empty (Some 1)
                      (willing_engine empty_frame [64, 64, 0, 0, 0, 0, 0, 0])
                      ''libx264'' 64 64 AV_PIX_FMT_NV12 32 999 1 30 9999 0 0 1 0
                      [0, 0, 0, 0, 0, 0, 0, 0] [0, 0, 0, 0, 0, 0, 0, 0] (Some 0))) 1 = Some s
         \<and> c_m s = Some c \<and> cc_bit_rate c = 200000"
proof -
  let ?eng = "willing_engine empty_frame [64, 64, 0, 0, 0, 0, 0, 0]"
  let ?r = "ffmpeg_ram_new_encoder False Map.empty (Some 1) ?eng
              ''libx264'' 64 64 AV_PIX_FMT_NV12 32 999 1 30 9999 0 0 1 0
              [0, 0, 0, 0, 0, 0, 0, 0] [0, 0, 0, 0, 0, 0, 0, 0] (Some 0)"
  obtain handle hp' lo' oo' l0' tr where n: "?r = (handle, hp', lo', oo', l0', tr)"
    by (cases ?r) auto
  have ac: "ie_alloc_context ?eng = Some default_context"
    by (simp add: willing_engine_def)
  note t = bitrate_set_from_1000 [OF ac n]
  from t have "fst (ffmpeg_ram_new_encoder False Map.empty (Some 1) ?eng
              ''libx264'' 64 64 AV_PIX_FMT_NV12 32 500000 1 30 9999 0 0 1 0
              [0, 0, 0, 0, 0, 0, 0, 0] [0, 0, 0, 0, 0, 0, 0, 0] (Some 0)) = handle"
    by blast
  with nv12_session_created have "handle = Some 1" by simp
  with t obtain s c where sc: "hp' 1 = Some s" "c_m s = Some c" "Call_avcodec_open2 c \<in> set tr"
    by auto
  with t have "cc_bit_rate c = cc_bit_rate default_context" by auto
  then have "cc_bit_rate c = 200000" by (simp add: default_context_def)
  with sc show ?thesis
    unfolding n by auto
qed

end
